theory Spec2Isabelle
  imports Complex_Main "HOL-Library.AList"
begin

section \<open>The shared cache\<close>

text \<open>
  \<^verbatim>\<open>django.core.cache.cache\<close> with no \<^verbatim>\<open>CACHES\<close> setting (the project's settings
  declare none) is the local-memory backend: a dictionary from keys to values with an
  expiry time each. \<^verbatim>\<open>get\<close> answers \<^verbatim>\<open>None\<close> for a missing key and for a key whose
  expiry time is not after the clock; \<^verbatim>\<open>set(key, value, timeout)\<close> stores the value
  with expiry time clock + timeout; \<^verbatim>\<open>delete\<close> removes the key whether or not it is
  there. The clock (\<^verbatim>\<open>time.time()\<close>, seconds) is a field of the state.
\<close>

type_synonym time = real

type_synonym 'v cache_store = "string \<rightharpoonup> ('v \<times> time)"

definition cache_get :: "'v cache_store \<Rightarrow> time \<Rightarrow> string \<Rightarrow> 'v option" where
  "cache_get c t k =
     (case c k of
        None \<Rightarrow> None
      | Some (v, expiry) \<Rightarrow> if expiry \<le> t then None else Some v)"

definition cache_set :: "'v cache_store \<Rightarrow> time \<Rightarrow> string \<Rightarrow> 'v \<Rightarrow> time \<Rightarrow> 'v cache_store" where
  "cache_set c t k v timeout = c(k \<mapsto> (v, t + timeout))"

definition cache_delete :: "'v cache_store \<Rightarrow> string \<Rightarrow> 'v cache_store" where
  "cache_delete c k = c(k := None)"

section \<open>SingletonModel\<close>

text \<open>
  A model instance is a record with a primary key; each concrete model class extends it
  with its own fields, as the Python classes extend \<^verbatim>\<open>models.Model\<close>. The four
  configuration classes each declare the same two audit fields, \<^verbatim>\<open>created_at\<close>
  (\<^verbatim>\<open>auto_now_add\<close>) and \<^verbatim>\<open>updated_at\<close> (\<^verbatim>\<open>auto_now\<close>), both columns that do not
  accept NULL; they stand in a record of their own that the four classes extend. On an
  instance, \<open>None\<close> is the attribute not yet set, as on a freshly constructed instance.
  The state seen by one model class is its table (rows by primary key), the cache
  entries holding its instances, and the clock.
\<close>

record model =
  pk :: "int option"

record config_model = model +
  created_at :: "time option"
  updated_at :: "time option"

record 'r world =
  table :: "int \<rightharpoonup> 'r"
  cache :: "'r cache_store"
  now :: time

datatype exn_class =
    Timeout | ConnectionError | RequestException | JSONDecodeError
  | AttributeError | ValueError | IndexError | IntegrityError | OtherException

datatype exn = Exn (exn_cls: exn_class) (exn_str: string)

text \<open>\<^verbatim>\<open>f"{cls.__name__}_singleton"\<close>\<close>

definition cache_key :: "string \<Rightarrow> string" where
  "cache_key cls_name = cls_name @ ''_singleton''"

definition SingletonModel_clear_cache :: "string \<Rightarrow> 'r world \<Rightarrow> 'r world" where
  "SingletonModel_clear_cache cls_name w =
     w\<lparr>cache := cache_delete (cache w) (cache_key cls_name)\<rparr>"

text \<open>
  \<^verbatim>\<open>Model.save\<close> of an instance whose primary key \<open>k\<close> is set. Without
  \<^verbatim>\<open>force_insert\<close> it first tries an UPDATE of the row at \<open>k\<close>, with \<^verbatim>\<open>updated_at\<close>
  set to the clock and \<^verbatim>\<open>created_at\<close> as the instance has it: when there is a row and
  the instance has no \<^verbatim>\<open>created_at\<close>, the database refuses the NULL and the save raises
  \<^verbatim>\<open>IntegrityError\<close>, the table unchanged. When the UPDATE finds no row, the instance is
  inserted, with both audit fields set to the clock. With \<^verbatim>\<open>force_insert\<close> the
  instance is inserted at once, and a row already at \<open>k\<close> makes the insertion raise
  \<^verbatim>\<open>IntegrityError\<close>. The audit fields are set on the instance before the database is
  asked, so the instance comes back changed in either case.
\<close>

definition Model_save ::
  "bool \<Rightarrow> int \<Rightarrow> 'a config_model_scheme \<Rightarrow> 'a config_model_scheme world
     \<Rightarrow> (exn + unit) \<times> 'a config_model_scheme \<times> 'a config_model_scheme world" where
  "Model_save force_insert k self w =
     (let updating = self\<lparr>updated_at := Some (now w)\<rparr>;
          adding = self\<lparr>created_at := Some (now w), updated_at := Some (now w)\<rparr>
      in if force_insert then
           (case table w k of
              Some row \<Rightarrow>
                (Inl (Exn IntegrityError ''duplicate key value violates unique constraint''),
                 adding, w)
            | None \<Rightarrow> (Inr (), adding, w\<lparr>table := (table w)(k \<mapsto> adding)\<rparr>))
         else
           (case table w k of
              Some row \<Rightarrow>
                (if created_at updating = None
                 then (Inl (Exn IntegrityError ''null value in column created_at''), updating, w)
                 else (Inr (), updating, w\<lparr>table := (table w)(k \<mapsto> updating)\<rparr>))
            | None \<Rightarrow> (Inr (), adding, w\<lparr>table := (table w)(k \<mapsto> adding)\<rparr>)))"

text \<open>
  \<^verbatim>\<open>SingletonModel.save\<close> sets the key to 1, calls \<^verbatim>\<open>super().save\<close> with the arguments
  it was given (of which \<^verbatim>\<open>force_insert\<close> is kept here) and then evicts the cache
  entry; when \<^verbatim>\<open>super().save\<close> raises, the eviction is not reached. The result is what
  the call raised or that it returned, the instance (mutated in place by the Python)
  and the state.
\<close>

definition SingletonModel_save ::
  "string \<Rightarrow> bool \<Rightarrow> 'a config_model_scheme \<Rightarrow> 'a config_model_scheme world
     \<Rightarrow> (exn + unit) \<times> 'a config_model_scheme \<times> 'a config_model_scheme world" where
  "SingletonModel_save cls_name force_insert self w =
     (let self1 = self\<lparr>pk := Some 1\<rparr>
      in case Model_save force_insert 1 self1 w of
           (Inl e, self2, w1) \<Rightarrow> (Inl e, self2, w1)
         | (Inr u, self2, w1) \<Rightarrow> (Inr (), self2, SingletonModel_clear_cache cls_name w1))"

text \<open>
  \<^verbatim>\<open>SingletonModel.delete\<close> evicts the cache entry, then \<^verbatim>\<open>Model.delete\<close> removes the
  row at the instance's own key; an instance with no key makes \<^verbatim>\<open>Model.delete\<close> raise
  \<^verbatim>\<open>ValueError\<close>, after the eviction.
\<close>

definition SingletonModel_delete ::
  "string \<Rightarrow> 'a config_model_scheme \<Rightarrow> 'a config_model_scheme world
     \<Rightarrow> (exn + unit) \<times> 'a config_model_scheme world" where
  "SingletonModel_delete cls_name self w =
     (let w1 = SingletonModel_clear_cache cls_name w
      in case pk self of
           None \<Rightarrow> (Inl (Exn ValueError ''object can't be deleted because its pk attribute is set to None.''), w1)
         | Some k \<Rightarrow> (Inr (), w1\<lparr>table := (table w1)(k := None)\<rparr>))"

text \<open>
  \<^verbatim>\<open>cls.objects.get_or_create(pk=1)\<close>: the row at key 1 when there is one; otherwise
  \<^verbatim>\<open>create(pk=1)\<close>, which constructs an instance with the class's field defaults and
  the key 1 and calls its \<^verbatim>\<open>save(force_insert=True)\<close>, that is
  \<^verbatim>\<open>SingletonModel.save\<close>. That save is reached only with no row at key 1, where the
  insertion cannot be refused (lemma \<open>create_returns\<close> below), so what it raised or
  returned is dropped.
\<close>

definition get_or_create ::
  "string \<Rightarrow> 'a config_model_scheme \<Rightarrow> 'a config_model_scheme world
     \<Rightarrow> 'a config_model_scheme \<times> 'a config_model_scheme world" where
  "get_or_create cls_name defaults w =
     (case table w 1 of
        Some row \<Rightarrow> (row, w)
      | None \<Rightarrow>
          (case SingletonModel_save cls_name True (defaults\<lparr>pk := Some 1\<rparr>) w of
             (r, obj, w1) \<Rightarrow> (obj, w1)))"

definition SingletonModel_load ::
  "string \<Rightarrow> 'a config_model_scheme \<Rightarrow> 'a config_model_scheme world
     \<Rightarrow> 'a config_model_scheme \<times> 'a config_model_scheme world" where
  "SingletonModel_load cls_name defaults w =
     (case cache_get (cache w) (now w) (cache_key cls_name) of
        Some instance \<Rightarrow> (instance, w)
      | None \<Rightarrow>
          (let (instance, w1) = get_or_create cls_name defaults w
           in (instance,
               w1\<lparr>cache := cache_set (cache w1) (now w1) (cache_key cls_name) instance 300\<rparr>)))"

text \<open>
  A run of plain \<^verbatim>\<open>save()\<close> calls, one per record of the list, in order; a call that
  raises ends the run, as the exception would.
\<close>

fun save_all ::
  "string \<Rightarrow> 'a config_model_scheme list \<Rightarrow> 'a config_model_scheme world
     \<Rightarrow> (exn + unit) \<times> 'a config_model_scheme world" where
  "save_all cls_name [] w = (Inr (), w)"
| "save_all cls_name (r # rs) w =
     (case SingletonModel_save cls_name False r w of
        (Inl e, r1, w1) \<Rightarrow> (Inl e, w1)
      | (Inr u, r1, w1) \<Rightarrow> save_all cls_name rs w1)"

section \<open>The configuration models\<close>

text \<open>
  The classes list \<^verbatim>\<open>created_at\<close> and \<^verbatim>\<open>updated_at\<close> after their own fields; here the
  two come first, with the key.
\<close>

record StripeConfiguration = config_model +
  is_active :: bool
  publishable_key :: string
  secret_key :: string
  webhook_secret :: string
  is_live_mode :: bool

record ResendConfiguration = config_model +
  is_active :: bool
  api_key :: string
  from_email :: string
  from_name :: string
  last_test_at :: "time option"
  last_test_status :: string

record TinyMCEConfiguration = config_model +
  is_active :: bool
  api_key :: string
  height :: nat
  menubar :: string
  plugins :: string
  toolbar :: string

record CloudinaryConfiguration = config_model +
  is_active :: bool
  cloud_name :: string
  api_key :: string
  api_secret :: string
  default_folder :: string
  auto_optimize :: bool

text \<open>
  A freshly constructed instance of each class: no key, no audit fields yet, and the
  field defaults (a \<^verbatim>\<open>CharField\<close> with no default is empty).
\<close>

definition StripeConfiguration_defaults :: StripeConfiguration where
  "StripeConfiguration_defaults =
     \<lparr>pk = None, created_at = None, updated_at = None,
      StripeConfiguration.is_active = False, publishable_key = [],
      secret_key = [], webhook_secret = [], is_live_mode = False\<rparr>"

definition ResendConfiguration_defaults :: ResendConfiguration where
  "ResendConfiguration_defaults =
     \<lparr>pk = None, created_at = None, updated_at = None,
      ResendConfiguration.is_active = False, ResendConfiguration.api_key = [],
      from_email = [], from_name = [], last_test_at = None, last_test_status = []\<rparr>"

definition TinyMCEConfiguration_defaults :: TinyMCEConfiguration where
  "TinyMCEConfiguration_defaults =
     \<lparr>pk = None, created_at = None, updated_at = None,
      TinyMCEConfiguration.is_active = False, TinyMCEConfiguration.api_key = [],
      height = 500,
      menubar = ''file edit view insert format tools table help'',
      plugins = ''advlist autolink lists link image charmap preview anchor searchreplace visualblocks code fullscreen insertdatetime media table help wordcount'',
      toolbar = ''undo redo | blocks | bold italic forecolor | alignleft aligncenter alignright alignjustify | bullist numlist outdent indent | removeformat | image media link | code | help''\<rparr>"

definition CloudinaryConfiguration_defaults :: CloudinaryConfiguration where
  "CloudinaryConfiguration_defaults =
     \<lparr>pk = None, created_at = None, updated_at = None,
      CloudinaryConfiguration.is_active = False, cloud_name = [],
      CloudinaryConfiguration.api_key = [], api_secret = [],
      default_folder = ''uploads'', auto_optimize = True\<rparr>"

definition StripeConfiguration_load ::
  "StripeConfiguration world \<Rightarrow> StripeConfiguration \<times> StripeConfiguration world" where
  "StripeConfiguration_load = SingletonModel_load ''StripeConfiguration'' StripeConfiguration_defaults"

definition ResendConfiguration_load ::
  "ResendConfiguration world \<Rightarrow> ResendConfiguration \<times> ResendConfiguration world" where
  "ResendConfiguration_load = SingletonModel_load ''ResendConfiguration'' ResendConfiguration_defaults"

definition TinyMCEConfiguration_load ::
  "TinyMCEConfiguration world \<Rightarrow> TinyMCEConfiguration \<times> TinyMCEConfiguration world" where
  "TinyMCEConfiguration_load = SingletonModel_load ''TinyMCEConfiguration'' TinyMCEConfiguration_defaults"

definition CloudinaryConfiguration_load ::
  "CloudinaryConfiguration world \<Rightarrow> CloudinaryConfiguration \<times> CloudinaryConfiguration world" where
  "CloudinaryConfiguration_load =
     SingletonModel_load ''CloudinaryConfiguration'' CloudinaryConfiguration_defaults"

section \<open>services.py: the configuration accessors\<close>

text \<open>
  \<^verbatim>\<open>config.is_active and config.api_key\<close>: a string is true when it is not empty.
  The accessor returns the loaded instance or \<^verbatim>\<open>None\<close>, and the state \<^verbatim>\<open>load\<close> left.
\<close>

definition get_stripe_config ::
  "StripeConfiguration world \<Rightarrow> StripeConfiguration option \<times> StripeConfiguration world" where
  "get_stripe_config w =
     (let (config, w1) = StripeConfiguration_load w
      in if StripeConfiguration.is_active config \<and> secret_key config \<noteq> []
         then (Some config, w1) else (None, w1))"

definition get_resend_config ::
  "ResendConfiguration world \<Rightarrow> ResendConfiguration option \<times> ResendConfiguration world" where
  "get_resend_config w =
     (let (config, w1) = ResendConfiguration_load w
      in if ResendConfiguration.is_active config \<and> ResendConfiguration.api_key config \<noteq> []
         then (Some config, w1) else (None, w1))"

definition get_tinymce_config ::
  "TinyMCEConfiguration world \<Rightarrow> TinyMCEConfiguration option \<times> TinyMCEConfiguration world" where
  "get_tinymce_config w =
     (let (config, w1) = TinyMCEConfiguration_load w
      in if TinyMCEConfiguration.is_active config \<and> TinyMCEConfiguration.api_key config \<noteq> []
         then (Some config, w1) else (None, w1))"

definition get_cloudinary_config ::
  "CloudinaryConfiguration world \<Rightarrow> CloudinaryConfiguration option \<times> CloudinaryConfiguration world" where
  "get_cloudinary_config w =
     (let (config, w1) = CloudinaryConfiguration_load w
      in if CloudinaryConfiguration.is_active config \<and> cloud_name config \<noteq> []
            \<and> CloudinaryConfiguration.api_key config \<noteq> [] \<and> api_secret config \<noteq> []
         then (Some config, w1) else (None, w1))"

section \<open>services.py: the email client\<close>

text \<open>
  The HTTP library is the environment: \<^verbatim>\<open>requests.post\<close> either raises or returns a
  response, and every call made is recorded in a list, in order. The JSON body of a
  request is kept by its four keys \<^verbatim>\<open>from\<close>, \<^verbatim>\<open>to\<close>, \<^verbatim>\<open>subject\<close> and \<^verbatim>\<open>html\<close>. A
  response carries its status code, its text, and what \<^verbatim>\<open>response.json()\<close> makes of
  the text: a decoding error (with its message), a JSON object (its members, the values
  as \<^verbatim>\<open>str\<close> renders them), or another JSON value (with its Python type name).
\<close>

record http_request =
  req_url :: string
  req_headers :: "(string \<times> string) list"
  json_from :: string
  json_to :: "string list"
  json_subject :: string
  json_html :: string
  req_timeout :: nat

datatype json_value = JsonObject "(string \<times> string) list" | JsonOther string

record http_response =
  status_code :: int
  resp_text :: string
  parsed :: "string + json_value"

type_synonym http = "http_request \<Rightarrow> exn + http_response"

definition requests_post ::
  "http \<Rightarrow> http_request \<Rightarrow> http_request list \<Rightarrow> (exn + http_response) \<times> http_request list" where
  "requests_post net req sent = (net req, sent @ [req])"

text \<open>
  The exception classes that \<^verbatim>\<open>except requests.exceptions.RequestException\<close> catches:
  \<^verbatim>\<open>Timeout\<close> and \<^verbatim>\<open>ConnectionError\<close> are subclasses, and so is the \<^verbatim>\<open>JSONDecodeError\<close>
  that \<^verbatim>\<open>response.json()\<close> raises (requests 2.27 and later).
\<close>

definition is_RequestException :: "exn \<Rightarrow> bool" where
  "is_RequestException e =
     (exn_cls e = Timeout \<or> exn_cls e = ConnectionError \<or> exn_cls e = RequestException
      \<or> exn_cls e = JSONDecodeError)"

definition response_json :: "http_response \<Rightarrow> exn + json_value" where
  "response_json response =
     (case parsed response of
        Inl msg \<Rightarrow> Inl (Exn JSONDecodeError msg)
      | Inr v \<Rightarrow> Inr v)"

text \<open>\<^verbatim>\<open>error_data.get("message", response.text)\<close>: only a dictionary has \<^verbatim>\<open>get\<close>.\<close>

definition error_data_get :: "json_value \<Rightarrow> string \<Rightarrow> string \<Rightarrow> exn + string" where
  "error_data_get error_data key dflt =
     (case error_data of
        JsonObject members \<Rightarrow>
          (case map_of members key of Some v \<Rightarrow> Inr v | None \<Rightarrow> Inr dflt)
      | JsonOther ty \<Rightarrow> Inl (Exn AttributeError (ty @ '' object has no attribute get'')))"

text \<open>The \<^verbatim>\<open>else\<close> branch shared, word for word, by the two senders.\<close>

definition error_reply :: "http_response \<Rightarrow> exn + bool \<times> string" where
  "error_reply response =
     (case response_json response of
        Inl e \<Rightarrow> Inl e
      | Inr error_data \<Rightarrow>
          (case error_data_get error_data ''message'' (resp_text response) of
             Inl e \<Rightarrow> Inl e
           | Inr error_message \<Rightarrow> Inr (False, ''Failed to send email: '' @ error_message)))"

text \<open>
  The call both senders make: the URL, the two headers, the JSON body (\<^verbatim>\<open>from\<close> is
  \<^verbatim>\<open>"{from_name} <{from_email}>"\<close> when there is a name, the address alone otherwise)
  and the timeout of 10 seconds.
\<close>

definition resend_request :: "ResendConfiguration \<Rightarrow> string \<Rightarrow> string \<Rightarrow> string \<Rightarrow> http_request" where
  "resend_request config to_email subject html =
     \<lparr>req_url = ''https://api.resend.com/emails'',
      req_headers =
        [(''Authorization'', ''Bearer '' @ ResendConfiguration.api_key config),
         (''Content-Type'', ''application/json'')],
      json_from =
        (if from_name config \<noteq> [] then from_name config @ '' <'' @ from_email config @ ''>''
         else from_email config),
      json_to = [to_email],
      json_subject = subject,
      json_html = html,
      req_timeout = 10\<rparr>"

definition test_email_html :: string where
  "test_email_html =
     ''\<newline>                    <h1>Test Email Successful!</h1>\<newline>                    <p>Your Resend email configuration is working correctly.</p>\<newline>                    <p>This email was sent from Turbo Admin settings.</p>\<newline>                ''"

text \<open>
  The result is \<open>Inr\<close> of the (success, message) pair the function returns, or \<open>Inl\<close>
  of an exception that leaves it. The messages are the untranslated ones.
\<close>

definition send_test_email ::
  "http \<Rightarrow> ResendConfiguration \<Rightarrow> string \<Rightarrow> http_request list
     \<Rightarrow> (exn + bool \<times> string) \<times> http_request list" where
  "send_test_email net config to_email sent =
     (if ResendConfiguration.api_key config = [] then (Inr (False, ''API key is not configured.''), sent)
      else if from_email config = [] then (Inr (False, ''From email is not configured.''), sent)
      else
        (let (r, sent1) =
               requests_post net
                 (resend_request config to_email ''Test Email - Turbo Configuration''
                    test_email_html) sent;
             body =
               (case r of
                  Inl e \<Rightarrow> Inl e
                | Inr response \<Rightarrow>
                    if status_code response = 200
                    then Inr (True, ''Test email sent successfully to '' @ to_email)
                    else error_reply response)
         in case body of
              Inr res \<Rightarrow> (Inr res, sent1)
            | Inl e \<Rightarrow>
                if exn_cls e = Timeout then (Inr (False, ''Request timed out. Please try again.''), sent1)
                else if is_RequestException e
                then (Inr (False, ''Failed to send email: '' @ exn_str e), sent1)
                else (Inl e, sent1)))"

definition send_email ::
  "http \<Rightarrow> string \<Rightarrow> string \<Rightarrow> string \<Rightarrow> ResendConfiguration world \<Rightarrow> http_request list
     \<Rightarrow> (exn + bool \<times> string) \<times> ResendConfiguration world \<times> http_request list" where
  "send_email net to_email subject html_content w sent =
     (let (config_opt, w1) = get_resend_config w
      in case config_opt of
           None \<Rightarrow> (Inr (False, ''Email service is not configured.''), w1, sent)
         | Some config \<Rightarrow>
             (let (r, sent1) =
                    requests_post net (resend_request config to_email subject html_content) sent;
                  body =
                    (case r of
                       Inl e \<Rightarrow> Inl e
                     | Inr response \<Rightarrow>
                         if status_code response = 200
                         then Inr (True, ''Email sent successfully.'')
                         else error_reply response)
              in case body of
                   Inr res \<Rightarrow> (Inr res, w1, sent1)
                 | Inl e \<Rightarrow>
                     if is_RequestException e
                     then (Inr (False, ''Failed to send email: '' @ exn_str e), w1, sent1)
                     else (Inl e, w1, sent1)))"

text \<open>
  The four outcome classes the specification names, as it words them: a response with a
  2xx status is a success, any other response a rejection by the provider, a raised
  \<^verbatim>\<open>Timeout\<close> a timeout and any other raised exception a transport failure.
\<close>

datatype outcome_class = Success | ProviderRejected | TimedOut | TransportFailure

definition spec_outcome_class :: "exn + http_response \<Rightarrow> outcome_class" where
  "spec_outcome_class r =
     (case r of
        Inr response \<Rightarrow>
          if 200 \<le> status_code response \<and> status_code response < 300 then Success
          else ProviderRejected
      | Inl e \<Rightarrow> if exn_cls e = Timeout then TimedOut else TransportFailure)"

section \<open>Python's string and list operations\<close>

text \<open>\<^verbatim>\<open>s.split(sep)\<close> for a one-character separator: never empty, keeps empty pieces.\<close>

fun str_split :: "string \<Rightarrow> char \<Rightarrow> string list" where
  "str_split [] sep = [[]]"
| "str_split (c # cs) sep =
     (if c = sep then [] # str_split cs sep
      else (case str_split cs sep of
              [] \<Rightarrow> [[c]]
            | p # ps \<Rightarrow> (c # p) # ps))"

text \<open>\<^verbatim>\<open>s.startswith(prefix)\<close>\<close>

fun str_startswith :: "string \<Rightarrow> string \<Rightarrow> bool" where
  "str_startswith s [] = True"
| "str_startswith [] (p # ps) = False"
| "str_startswith (c # cs) (p # ps) = (c = p \<and> str_startswith cs ps)"

text \<open>\<^verbatim>\<open>sub in s\<close>\<close>

fun str_contains :: "string \<Rightarrow> string \<Rightarrow> bool" where
  "str_contains sub [] = (sub = [])"
| "str_contains sub (c # cs) = (str_startswith (c # cs) sub \<or> str_contains sub cs)"

text \<open>\<^verbatim>\<open>xs.index(x)\<close>: the first position of \<open>x\<close>; \<open>None\<close> stands for the \<^verbatim>\<open>ValueError\<close>.\<close>

fun list_index :: "'a list \<Rightarrow> 'a \<Rightarrow> nat option" where
  "list_index [] x = None"
| "list_index (y # ys) x =
     (if y = x then Some 0
      else (case list_index ys x of None \<Rightarrow> None | Some i \<Rightarrow> Some (Suc i)))"

text \<open>\<^verbatim>\<open>sep.join(parts)\<close>\<close>

fun str_join :: "string \<Rightarrow> string list \<Rightarrow> string" where
  "str_join sep [] = []"
| "str_join sep [p] = p"
| "str_join sep (p # q # ps) = p @ sep @ str_join sep (q # ps)"

text \<open>\<^verbatim>\<open>s.rsplit(sep, 1)[0]\<close>: what stands before the last separator, or all of \<open>s\<close>.\<close>

definition str_rsplit1_first :: "string \<Rightarrow> char \<Rightarrow> string" where
  "str_rsplit1_first s sep =
     (if sep \<in> set s then rev (tl (dropWhile (\<lambda>c. c \<noteq> sep) (rev s))) else s)"

text \<open>A dictionary is an association list; \<^verbatim>\<open>d.update(e)\<close> and \<^verbatim>\<open>d.get(k)\<close>.\<close>

type_synonym dict = "(string \<times> string) list"

definition dict_update :: "dict \<Rightarrow> dict \<Rightarrow> dict" where
  "dict_update d e = fold (\<lambda>(k, v) acc. AList.update k v acc) e d"

definition dict_get :: "dict \<Rightarrow> string \<Rightarrow> string option" where
  "dict_get d k = map_of d k"

section \<open>services.py: the media host\<close>

text \<open>
  A file field holds a file by its name (\<^verbatim>\<open>None\<close> or empty: no file); the code compares
  and tests files by name only. The Cloudinary library is the environment:
  \<^verbatim>\<open>uploader.upload\<close> and \<^verbatim>\<open>uploader.destroy\<close> either raise or return a result
  dictionary, and every call into the library is recorded, in order.
\<close>

datatype FieldFile = FieldFile (file_name: "string option")

record upload_params =
  folder :: string
  resource_type :: string
  timeout :: nat
  transformation :: "dict option"

datatype cloudinary_call =
    Configure string string string bool
  | Upload FieldFile upload_params
  | Destroy string

record cloudinary_api =
  uploader_upload :: "FieldFile \<Rightarrow> upload_params \<Rightarrow> exn + dict"
  uploader_destroy :: "string \<Rightarrow> exn + dict"

record media_state =
  cloudinary_world :: "CloudinaryConfiguration world"
  calls :: "cloudinary_call list"

text \<open>\<^verbatim>\<open>CloudinaryConfiguration.configure\<close>\<close>

definition configure :: "CloudinaryConfiguration \<Rightarrow> 'm media_state_scheme \<Rightarrow> 'm media_state_scheme" where
  "configure self s =
     s\<lparr>calls := calls s @
         [Configure (cloud_name self) (CloudinaryConfiguration.api_key self) (api_secret self) True]\<rparr>"

text \<open>
  Lines 267 to 283 of \<^verbatim>\<open>upload_to_cloudinary\<close>: the parameters of the upload, from the
  configuration and the arguments (\<^verbatim>\<open>folder or config.default_folder\<close>; an empty
  dictionary counts as no transformation).
\<close>

definition build_upload_params ::
  "CloudinaryConfiguration \<Rightarrow> string option \<Rightarrow> dict option \<Rightarrow> nat \<Rightarrow> upload_params" where
  "build_upload_params config folder_arg transformation_arg timeout_arg =
     (let params0 =
            \<lparr>folder = (case folder_arg of
                         None \<Rightarrow> default_folder config
                       | Some f \<Rightarrow> if f \<noteq> [] then f else default_folder config),
             resource_type = ''image'',
             timeout = timeout_arg,
             transformation = None\<rparr>;
          params1 =
            (if auto_optimize config
             then params0\<lparr>transformation :=
                    Some [(''quality'', ''auto:good''), (''fetch_format'', ''auto'')]\<rparr>
             else params0)
      in case transformation_arg of
           None \<Rightarrow> params1
         | Some t \<Rightarrow>
             if t \<noteq> [] then
               (case transformation params1 of
                  Some base \<Rightarrow> params1\<lparr>transformation := Some (dict_update base t)\<rparr>
                | None \<Rightarrow> params1\<lparr>transformation := Some t\<rparr>)
             else params1)"

definition upload_to_cloudinary ::
  "cloudinary_api \<Rightarrow> FieldFile \<Rightarrow> string option \<Rightarrow> dict option \<Rightarrow> nat
     \<Rightarrow> 'm media_state_scheme \<Rightarrow> string option \<times> 'm media_state_scheme" where
  "upload_to_cloudinary api image_file folder_arg transformation_arg timeout_arg s =
     (let (config_opt, w1) = get_cloudinary_config (cloudinary_world s);
          s1 = s\<lparr>cloudinary_world := w1\<rparr>
      in case config_opt of
           None \<Rightarrow> (None, s1)
         | Some config \<Rightarrow>
             (let s2 = configure config s1;
                  upload_params = build_upload_params config folder_arg transformation_arg timeout_arg;
                  s3 = s2\<lparr>calls := calls s2 @ [Upload image_file upload_params]\<rparr>
              in case uploader_upload api image_file upload_params of
                   Inl e \<Rightarrow> (None, s3)
                 | Inr result \<Rightarrow> (dict_get result ''secure_url'', s3)))"

text \<open>
  Lines 321 to 328 of \<^verbatim>\<open>delete_from_cloudinary\<close>: the public id from the pieces of the
  URL, or the exception the lookup of \<^verbatim>\<open>"upload"\<close> or of the first piece raises.
\<close>

definition extract_public_id :: "string list \<Rightarrow> exn + string" where
  "extract_public_id parts =
     (case list_index parts ''upload'' of
        None \<Rightarrow> Inl (Exn ValueError '''upload' is not in list'')
      | Some upload_index \<Rightarrow>
          (case drop (upload_index + 1) parts of
             [] \<Rightarrow> Inl (Exn IndexError ''list index out of range'')
           | first # rest \<Rightarrow>
               (let public_id_parts = (if str_startswith first ''v'' then rest else first # rest);
                    public_id = str_join ''/'' public_id_parts
                in Inr (str_rsplit1_first public_id (CHR ''.'')))))"

definition delete_from_cloudinary ::
  "cloudinary_api \<Rightarrow> string \<Rightarrow> 'm media_state_scheme \<Rightarrow> bool \<times> 'm media_state_scheme" where
  "delete_from_cloudinary api url s =
     (let (config_opt, w1) = get_cloudinary_config (cloudinary_world s);
          s1 = s\<lparr>cloudinary_world := w1\<rparr>
      in case config_opt of
           None \<Rightarrow> (False, s1)
         | Some config \<Rightarrow>
             (let s2 = configure config s1;
                  parts = str_split url (CHR ''/'')
              in if str_contains ''cloudinary.com'' url \<and> length parts \<ge> 2 then
                   (case extract_public_id parts of
                      Inl e \<Rightarrow> (False, s2)
                    | Inr public_id \<Rightarrow>
                        (let s3 = s2\<lparr>calls := calls s2 @ [Destroy public_id]\<rparr>
                         in case uploader_destroy api public_id of
                              Inl e \<Rightarrow> (False, s3)
                            | Inr result \<Rightarrow> (dict_get result ''result'' = Some ''ok'', s3)))
                 else (False, s2)))"

text \<open>
  The remote identifier as the specification words it: the pieces after the
  \<^verbatim>\<open>upload\<close> piece, without a leading version piece (Cloudinary's version component,
  the letter v and then digits only), joined, without the file extension.
\<close>

definition is_version_segment :: "string \<Rightarrow> bool" where
  "is_version_segment seg =
     (case seg of
        [] \<Rightarrow> False
      | c # ds \<Rightarrow> c = CHR ''v'' \<and> ds \<noteq> [] \<and> list_all (\<lambda>d. d \<in> set ''0123456789'') ds)"

definition spec_public_id :: "string \<Rightarrow> string option" where
  "spec_public_id url =
     (let parts = str_split url (CHR ''/'')
      in case list_index parts ''upload'' of
           None \<Rightarrow> None
         | Some i \<Rightarrow>
             (case drop (i + 1) parts of
                [] \<Rightarrow> None
              | first # rest \<Rightarrow>
                  Some (str_rsplit1_first
                          (str_join ''/'' (if is_version_segment first then rest else first # rest))
                          (CHR ''.''))))"

section \<open>signals.py: the pre-save hook of User\<close>

text \<open>
  The two media fields of \<^verbatim>\<open>User\<close>; every other field of the model lives in the
  extension of the record, which the hook never touches. The state of the hook adds the
  table of users to the state of the media services.
\<close>

record User = model +
  profile_picture :: FieldFile
  profile_picture_url :: string

record 'u app_state = media_state +
  users :: "int \<rightharpoonup> 'u"

text \<open>Truth values of Python: a key, a file field, an optional string.\<close>

definition pk_truthy :: "int option \<Rightarrow> bool" where
  "pk_truthy k = (case k of None \<Rightarrow> False | Some n \<Rightarrow> n \<noteq> 0)"

definition file_truthy :: "FieldFile \<Rightarrow> bool" where
  "file_truthy f = (case file_name f of None \<Rightarrow> False | Some n \<Rightarrow> n \<noteq> [])"

text \<open>
  \<^verbatim>\<open>if url: instance.profile_picture_url = url; instance.profile_picture = None\<close>,
  the tail of both branches of the hook.
\<close>

definition store_url :: "string option \<Rightarrow> 'a User_scheme \<Rightarrow> 'a User_scheme" where
  "store_url url instance =
     (case url of
        None \<Rightarrow> instance
      | Some u \<Rightarrow>
          if u \<noteq> [] then instance\<lparr>profile_picture_url := u, profile_picture := FieldFile None\<rparr>
          else instance)"

definition upload_profile_picture_to_cloudinary ::
  "cloudinary_api \<Rightarrow> 'a User_scheme \<Rightarrow> 'a User_scheme app_state
     \<Rightarrow> 'a User_scheme \<times> 'a User_scheme app_state" where
  "upload_profile_picture_to_cloudinary api instance s =
     (if \<not> pk_truthy (pk instance) then
        (if file_truthy (profile_picture instance) then
           (let (url, s1) =
                  upload_to_cloudinary api (profile_picture instance)
                    (Some ''users/profile_pictures'') None 30 s
            in (store_url url instance, s1))
         else (instance, s))
      else
        (case (case pk instance of None \<Rightarrow> None | Some k \<Rightarrow> users s k) of
           None \<Rightarrow> (instance, s)
         | Some old_instance \<Rightarrow>
             if file_truthy (profile_picture instance)
                \<and> profile_picture instance \<noteq> profile_picture old_instance
             then
               (let s1 = (if profile_picture_url old_instance \<noteq> []
                          then snd (delete_from_cloudinary api (profile_picture_url old_instance) s)
                          else s);
                    (url, s2) =
                      upload_to_cloudinary api (profile_picture instance)
                        (Some ''users/profile_pictures'') None 30 s1
                in (store_url url instance, s2))
             else (instance, s)))"

text \<open>
  What \<^verbatim>\<open>build_upload_params\<close> makes of the hook's arguments: the folder of profile
  pictures, a timeout of 30 seconds and, when the configuration asks for optimisation,
  the two optimisation settings.
\<close>

definition hook_params :: "CloudinaryConfiguration \<Rightarrow> upload_params" where
  "hook_params config =
     \<lparr>folder = ''users/profile_pictures'', resource_type = ''image'', timeout = 30,
      transformation =
        (if auto_optimize config
         then Some [(''quality'', ''auto:good''), (''fetch_format'', ''auto'')] else None)\<rparr>"

section \<open>Example states\<close>

text \<open>
  Concrete records, states and environments on which the theorems below are run: an
  e-mail configuration as stored, as loaded and edited, and as freshly constructed, a
  state whose cache still holds the stored one, a complete media configuration, and a
  media library that accepts every call.
\<close>

definition empty_world :: "'r world" where
  "empty_world = \<lparr>table = Map.empty, cache = Map.empty, now = 0\<rparr>"

definition old_resend :: ResendConfiguration where
  "old_resend =
     ResendConfiguration_defaults
       \<lparr>pk := Some 1, created_at := Some 5, updated_at := Some 5,
        ResendConfiguration.is_active := False, ResendConfiguration.api_key := ''re_old''\<rparr>"

definition new_resend :: ResendConfiguration where
  "new_resend =
     old_resend
       \<lparr>pk := Some 7, ResendConfiguration.is_active := True,
        ResendConfiguration.api_key := ''re_new'', from_email := ''noreply@example.com''\<rparr>"


definition stale_world :: "ResendConfiguration world" where
  "stale_world =
     \<lparr>table = [1 \<mapsto> old_resend],
      cache = [''ResendConfiguration_singleton'' \<mapsto> (old_resend, 300)],
      now = 10\<rparr>"

definition active_world :: "ResendConfiguration world" where
  "active_world = \<lparr>table = [1 \<mapsto> new_resend\<lparr>pk := Some 1\<rparr>], cache = Map.empty, now = 0\<rparr>"

definition ok_response :: http_response where
  "ok_response =
     \<lparr>status_code = 200, resp_text = ''ok'', parsed = Inr (JsonObject [(''id'', ''49a3999c'')])\<rparr>"

definition created_response :: http_response where
  "created_response =
     \<lparr>status_code = 201, resp_text = ''created'', parsed = Inr (JsonObject [(''id'', ''49a3999c'')])\<rparr>"

definition rejected_response :: http_response where
  "rejected_response =
     \<lparr>status_code = 422, resp_text = ''unprocessable'',
      parsed = Inr (JsonObject [(''statusCode'', ''422''), (''message'', ''Invalid to field'')])\<rparr>"

definition gateway_page :: http_response where
  "gateway_page =
     \<lparr>status_code = 502, resp_text = ''<html>Bad Gateway</html>'',
      parsed = Inl ''Expecting value: line 1 column 1 (char 0)''\<rparr>"

definition list_response :: http_response where
  "list_response = \<lparr>status_code = 500, resp_text = ''[]'', parsed = Inr (JsonOther ''list'')\<rparr>"

definition example_cloudinary :: CloudinaryConfiguration where
  "example_cloudinary =
     CloudinaryConfiguration_defaults
       \<lparr>pk := Some 1, created_at := Some 0, updated_at := Some 0,
        CloudinaryConfiguration.is_active := True, cloud_name := ''demo'',
        CloudinaryConfiguration.api_key := ''key'', api_secret := ''secret''\<rparr>"

definition example_media :: media_state where
  "example_media =
     \<lparr>cloudinary_world = \<lparr>table = [1 \<mapsto> example_cloudinary], cache = Map.empty, now = 0\<rparr>,
      calls = []\<rparr>"

definition example_api :: cloudinary_api where
  "example_api =
     \<lparr>uploader_upload = (\<lambda>f p. Inr [(''secure_url'', ''https://host/upload/v1/folder/abc.jpg'')]),
      uploader_destroy = (\<lambda>public_id. Inr [(''result'', ''ok'')])\<rparr>"

definition failing_api :: cloudinary_api where
  "failing_api =
     \<lparr>uploader_upload = (\<lambda>f p. Inl (Exn OtherException ''upload failed'')),
      uploader_destroy = (\<lambda>public_id. Inl (Exn OtherException ''destroy failed''))\<rparr>"

definition new_user :: User where
  "new_user = \<lparr>pk = None, profile_picture = FieldFile (Some ''me.jpg''), profile_picture_url = []\<rparr>"

definition stored_user :: User where
  "stored_user =
     \<lparr>pk = Some 5, profile_picture = FieldFile (Some ''old.jpg''),
      profile_picture_url = ''https://res.cloudinary.com/demo/image/upload/v1/folder/abc.jpg''\<rparr>"

definition example_app :: "User app_state" where
  "example_app =
     \<lparr>cloudinary_world = \<lparr>table = [1 \<mapsto> example_cloudinary], cache = Map.empty, now = 0\<rparr>,
      calls = [],
      users = [5 \<mapsto> stored_user]\<rparr>"

section \<open>The singleton and its cache\<close>

lemma cache_get_Some_iff:
  "cache_get c t k = Some v \<longleftrightarrow> (\<exists>expiry. c k = Some (v, expiry) \<and> t < expiry)"
  by (auto simp: cache_get_def split: option.splits)

text \<open>The three ways a \<^verbatim>\<open>save\<close> ends.\<close>

lemma save_inserts:
  assumes "table w 1 = None"
  shows "SingletonModel_save cls force_insert self w =
     (Inr (),
      self\<lparr>pk := Some 1, created_at := Some (now w), updated_at := Some (now w)\<rparr>,
      w\<lparr>table := (table w)(1 \<mapsto> self\<lparr>pk := Some 1, created_at := Some (now w),
                                          updated_at := Some (now w)\<rparr>),
        cache := (cache w)(cache_key cls := None)\<rparr>)"
  using assms
  by (simp add: SingletonModel_save_def Model_save_def SingletonModel_clear_cache_def
      cache_delete_def Let_def)

lemma save_updates:
  assumes "table w 1 = Some row" and "created_at self = Some c"
  shows "SingletonModel_save cls False self w =
     (Inr (),
      self\<lparr>pk := Some 1, updated_at := Some (now w)\<rparr>,
      w\<lparr>table := (table w)(1 \<mapsto> self\<lparr>pk := Some 1, updated_at := Some (now w)\<rparr>),
        cache := (cache w)(cache_key cls := None)\<rparr>)"
  using assms
  by (simp add: SingletonModel_save_def Model_save_def SingletonModel_clear_cache_def
      cache_delete_def Let_def)

lemma save_refused:
  assumes "table w 1 = Some row" and "force_insert \<or> created_at self = None"
  shows "\<exists>e self1. SingletonModel_save cls force_insert self w = (Inl e, self1, w)"
  using assms
  by (auto simp: SingletonModel_save_def Model_save_def Let_def)

lemma plain_save_raises:
  "(\<exists>e. fst (SingletonModel_save cls False self w) = Inl e)
     \<longleftrightarrow> table w 1 \<noteq> None \<and> created_at self = None"
  by (auto simp: SingletonModel_save_def Model_save_def Let_def split: option.splits)


text \<open>
  What a \<^verbatim>\<open>save\<close> that returns has done, and that one that raises has done nothing to
  the state.
\<close>

lemma save_result:
  assumes "SingletonModel_save cls force_insert self w = (r, saved, w1)"
  shows "case r of
           Inl e \<Rightarrow> w1 = w
         | Inr u \<Rightarrow>
             pk saved = Some 1
           \<and> config_model.more saved = config_model.more self
           \<and> updated_at saved = Some (now w)
           \<and> created_at saved =
               (if force_insert \<or> table w 1 = None then Some (now w) else created_at self)
           \<and> w1 = w\<lparr>table := (table w)(1 \<mapsto> saved), cache := (cache w)(cache_key cls := None)\<rparr>"
proof (cases "table w 1")
  case None
  from save_inserts[OF None, of cls force_insert self] assms None show ?thesis
    by auto
next
  case (Some row)
  show ?thesis
  proof (cases "force_insert \<or> created_at self = None")
    case True
    from save_refused[OF Some True, of cls] assms show ?thesis
      by auto
  next
    case False
    then obtain c where c: "created_at self = Some c" and plain: "\<not> force_insert"
      by auto
    from save_updates[OF Some c, of cls] assms plain Some c show ?thesis
      by auto
  qed
qed

lemma create_returns:
  assumes "table w 1 = None"
  shows "fst (SingletonModel_save cls True (defaults\<lparr>pk := Some 1\<rparr>) w) = Inr ()"
  by (simp add: save_inserts[OF assms])

lemma get_or_create_unfold:
  "get_or_create cls dflt w =
     (case table w 1 of
        Some row \<Rightarrow> (row, w)
      | None \<Rightarrow>
          (dflt\<lparr>pk := Some 1, created_at := Some (now w), updated_at := Some (now w)\<rparr>,
           w\<lparr>table := (table w)(1 \<mapsto> dflt\<lparr>pk := Some 1, created_at := Some (now w),
                                               updated_at := Some (now w)\<rparr>),
             cache := (cache w)(cache_key cls := None)\<rparr>))"
  by (simp add: get_or_create_def save_inserts split: option.splits)

lemma load_miss:
  assumes "cache_get (cache w) (now w) (cache_key cls) = None"
  shows "SingletonModel_load cls dflt w =
     (let inst = (case table w 1 of
                    Some row \<Rightarrow> row
                  | None \<Rightarrow> dflt\<lparr>pk := Some 1, created_at := Some (now w),
                                   updated_at := Some (now w)\<rparr>)
      in (inst,
          w\<lparr>table := (table w)(1 \<mapsto> inst),
            cache := (cache w)(cache_key cls \<mapsto> (inst, now w + 300))\<rparr>))"
proof (cases "table w 1")
  case None
  with assms show ?thesis
    by (simp add: SingletonModel_load_def get_or_create_unfold cache_set_def Let_def)
next
  case (Some row)
  then have "(table w)(1 \<mapsto> row) = table w"
    by (simp add: map_upd_triv)
  with assms Some show ?thesis
    by (simp add: SingletonModel_load_def get_or_create_unfold cache_set_def Let_def)
qed

lemma load_hit:
  "cache_get (cache w) (now w) (cache_key cls) = Some inst \<Longrightarrow>
   SingletonModel_load cls dflt w = (inst, w)"
  by (simp add: SingletonModel_load_def)

text \<open>
  The singleton invariant, no row at a key other than 1, is kept by \<^verbatim>\<open>save\<close>,
  \<^verbatim>\<open>load\<close> and \<^verbatim>\<open>delete\<close>.
\<close>

lemma singleton_invariant_kept:
  assumes "dom (table w) \<subseteq> {1}"
  shows "dom (table (snd (snd (SingletonModel_save cls force_insert self w)))) \<subseteq> {1}"
    and "dom (table (snd (SingletonModel_load cls dflt w))) \<subseteq> {1}"
    and "dom (table (snd (SingletonModel_delete cls self w))) \<subseteq> {1}"
proof -
  obtain r saved w1 where s: "SingletonModel_save cls force_insert self w = (r, saved, w1)"
    by (cases "SingletonModel_save cls force_insert self w")
  from save_result[OF s] assms
  have "dom (table w1) \<subseteq> {1}"
    by (cases r) auto
  then show "dom (table (snd (snd (SingletonModel_save cls force_insert self w)))) \<subseteq> {1}"
    by (simp add: s)
  show "dom (table (snd (SingletonModel_load cls dflt w))) \<subseteq> {1}"
  proof (cases "cache_get (cache w) (now w) (cache_key cls)")
    case None
    from load_miss[OF None, of dflt] assms show ?thesis
      by (auto simp: Let_def)
  next
    case (Some inst)
    from load_hit[OF Some, of dflt] assms show ?thesis
      by simp
  qed
  show "dom (table (snd (SingletonModel_delete cls self w))) \<subseteq> {1}"
    using assms
    by (auto simp: SingletonModel_delete_def SingletonModel_clear_cache_def Let_def
             split: option.splits if_splits)
qed



text \<open>A run of saves: the clock, the keys of the table, when it completes, what it leaves.\<close>

lemma save_step:
  "\<exists>r saved w1.
     SingletonModel_save cls False self w = (r, saved, w1)
     \<and> now w1 = now w
     \<and> (r = Inr () \<longleftrightarrow> table w 1 = None \<or> created_at self \<noteq> None)
     \<and> (r \<noteq> Inr () \<longrightarrow> w1 = w \<and> (\<exists>e. r = Inl e))
     \<and> (r = Inr () \<longrightarrow>
           table w1 = (table w)(1 \<mapsto> saved) \<and> pk saved = Some 1
           \<and> config_model.more saved = config_model.more self
           \<and> updated_at saved = Some (now w))"
proof -
  obtain r saved w1 where s: "SingletonModel_save cls False self w = (r, saved, w1)"
    by (cases "SingletonModel_save cls False self w")
  note res = save_result[OF s]
  have raises: "(\<exists>e. r = Inl e) \<longleftrightarrow> table w 1 \<noteq> None \<and> created_at self = None"
    using plain_save_raises[of cls self w] by (simp add: s)
  have "now w1 = now w"
    using res by (cases r) auto
  moreover have "r = Inr () \<longleftrightarrow> table w 1 = None \<or> created_at self \<noteq> None"
    using raises by (cases r) auto
  moreover have "r \<noteq> Inr () \<longrightarrow> w1 = w \<and> (\<exists>e. r = Inl e)"
    using res by (cases r) auto
  moreover have "r = Inr () \<longrightarrow>
           table w1 = (table w)(1 \<mapsto> saved) \<and> pk saved = Some 1
           \<and> config_model.more saved = config_model.more self
           \<and> updated_at saved = Some (now w)"
    using res by auto
  ultimately show ?thesis
    using s by blast
qed

lemma save_all_now: "now (snd (save_all cls rs w)) = now w"
proof (induction rs arbitrary: w)
  case Nil
  show ?case by simp
next
  case (Cons r0 rs)
  obtain r saved w1 where s: "SingletonModel_save cls False r0 w = (r, saved, w1)"
    and n: "now w1 = now w"
    using save_step[of cls r0 w] by blast
  show ?case
    using Cons.IH[of w1] n by (cases r) (simp_all add: s)
qed






text \<open>
  C8. For every model class and every state: when the cache holds an entry for the
  class whose expiry time is after the clock, \<^verbatim>\<open>load\<close> returns the cached instance and
  leaves the state, the table included, as it was, whatever the table holds. When it
  holds no such entry, \<^verbatim>\<open>load\<close> reads the table at key 1: it returns the row there, or,
  when there is none, inserts at key 1 a row with the defaults of the class (key 1, both
  audit fields set to the clock) and returns that; the table afterwards holds the
  returned instance at key 1 and is otherwise as before, and the cache holds it with
  expiry time clock + 300. With nothing but the clock (and, for the comparison, the
  table) changed afterwards, a \<^verbatim>\<open>load\<close> at a time \<open>t\<close> before that expiry still
  returns the cached instance and touches nothing, whatever the table \<open>tbl\<close> holds; a
  \<^verbatim>\<open>load\<close> at or after it reads the table again: it returns the row the first load
  left there, and, had the table become \<open>tbl\<close>, the row of \<open>tbl\<close> at key 1 (or the
  defaults, inserted).
\<close>

theorem load_cache_ttl:
  "(cache w (cache_key cls) = Some (cached, expiry) \<and> now w < expiry
      \<longrightarrow> SingletonModel_load cls dflt w = (cached, w))
   \<and> (cache_get (cache w) (now w) (cache_key cls) = None
      \<longrightarrow> (let inst = (case table w 1 of
                         Some row \<Rightarrow> row
                       | None \<Rightarrow> dflt\<lparr>pk := Some 1, created_at := Some (now w),
                                        updated_at := Some (now w)\<rparr>);
               w1 = w\<lparr>table := (table w)(1 \<mapsto> inst),
                      cache := (cache w)(cache_key cls \<mapsto> (inst, now w + 300))\<rparr>
           in SingletonModel_load cls dflt w = (inst, w1)
            \<and> (if t < now w + 300
                then SingletonModel_load cls dflt (w1\<lparr>now := t, table := tbl\<rparr>)
                       = (inst, w1\<lparr>now := t, table := tbl\<rparr>)
                else fst (SingletonModel_load cls dflt (w1\<lparr>now := t\<rparr>)) = inst
                   \<and> fst (SingletonModel_load cls dflt (w1\<lparr>now := t, table := tbl\<rparr>))
                       = (case tbl 1 of
                            Some row \<Rightarrow> row
                          | None \<Rightarrow> dflt\<lparr>pk := Some 1, created_at := Some t,
                                           updated_at := Some t\<rparr>))))"
proof (intro conjI impI)
  assume "cache w (cache_key cls) = Some (cached, expiry) \<and> now w < expiry"
  then have "cache_get (cache w) (now w) (cache_key cls) = Some cached"
    by (simp add: cache_get_def)
  then show "SingletonModel_load cls dflt w = (cached, w)"
    by (rule load_hit)
next
  assume miss: "cache_get (cache w) (now w) (cache_key cls) = None"
  define inst where "inst = (case table w 1 of
                         Some row \<Rightarrow> row
                       | None \<Rightarrow> dflt\<lparr>pk := Some 1, created_at := Some (now w),
                                        updated_at := Some (now w)\<rparr>)"
  define w1 where "w1 = w\<lparr>table := (table w)(1 \<mapsto> inst),
                      cache := (cache w)(cache_key cls \<mapsto> (inst, now w + 300))\<rparr>"
  have first: "SingletonModel_load cls dflt w = (inst, w1)"
    using load_miss[OF miss, of dflt] by (simp add: Let_def inst_def w1_def)
  have hit: "SingletonModel_load cls dflt (w1\<lparr>now := t, table := tbl\<rparr>)
               = (inst, w1\<lparr>now := t, table := tbl\<rparr>)" if "t < now w + 300"
  proof (rule load_hit)
    show "cache_get (cache (w1\<lparr>now := t, table := tbl\<rparr>)) (now (w1\<lparr>now := t, table := tbl\<rparr>))
            (cache_key cls) = Some inst"
      using that by (simp add: w1_def cache_get_def)
  qed
  have again: "fst (SingletonModel_load cls dflt (w1\<lparr>now := t\<rparr>)) = inst"
    and changed: "fst (SingletonModel_load cls dflt (w1\<lparr>now := t, table := tbl\<rparr>))
                   = (case tbl 1 of
                        Some row \<Rightarrow> row
                      | None \<Rightarrow> dflt\<lparr>pk := Some 1, created_at := Some t, updated_at := Some t\<rparr>)"
    if "\<not> t < now w + 300"
  proof -
    have "cache_get (cache (w1\<lparr>now := t\<rparr>)) (now (w1\<lparr>now := t\<rparr>)) (cache_key cls) = None"
      using that by (simp add: w1_def cache_get_def)
    from load_miss[OF this, of dflt]
    show "fst (SingletonModel_load cls dflt (w1\<lparr>now := t\<rparr>)) = inst"
      by (simp add: Let_def w1_def)
    have "cache_get (cache (w1\<lparr>now := t, table := tbl\<rparr>)) (now (w1\<lparr>now := t, table := tbl\<rparr>))
            (cache_key cls) = None"
      using that by (simp add: w1_def cache_get_def)
    from load_miss[OF this, of dflt]
    show "fst (SingletonModel_load cls dflt (w1\<lparr>now := t, table := tbl\<rparr>))
                   = (case tbl 1 of
                        Some row \<Rightarrow> row
                      | None \<Rightarrow> dflt\<lparr>pk := Some 1, created_at := Some t, updated_at := Some t\<rparr>)"
      by (cases "tbl 1") (simp_all add: Let_def)
  qed
  show "let inst = (case table w 1 of
                         Some row \<Rightarrow> row
                       | None \<Rightarrow> dflt\<lparr>pk := Some 1, created_at := Some (now w),
                                        updated_at := Some (now w)\<rparr>);
               w1 = w\<lparr>table := (table w)(1 \<mapsto> inst),
                      cache := (cache w)(cache_key cls \<mapsto> (inst, now w + 300))\<rparr>
           in SingletonModel_load cls dflt w = (inst, w1)
            \<and> (if t < now w + 300
                then SingletonModel_load cls dflt (w1\<lparr>now := t, table := tbl\<rparr>)
                       = (inst, w1\<lparr>now := t, table := tbl\<rparr>)
                else fst (SingletonModel_load cls dflt (w1\<lparr>now := t\<rparr>)) = inst
                   \<and> fst (SingletonModel_load cls dflt (w1\<lparr>now := t, table := tbl\<rparr>))
                       = (case tbl 1 of
                            Some row \<Rightarrow> row
                          | None \<Rightarrow> dflt\<lparr>pk := Some 1, created_at := Some t,
                                           updated_at := Some t\<rparr>))"
    unfolding Let_def inst_def[symmetric] w1_def[symmetric]
    using first hit again changed by simp
qed

text \<open>
  A \<^verbatim>\<open>load\<close> on the state whose cache holds the stored configuration returns it and
  changes nothing. A \<^verbatim>\<open>load\<close> on the empty state inserts the defaults at key 1 and
  caches them until 300. At 299 a \<^verbatim>\<open>load\<close> still answers from the cache, though the
  table has been given another row; at 300 it returns the row inserted by the first
  load, read from the table, and the other row when the table has been given one.
\<close>

theorem load_cache_ttl_witness:
  "SingletonModel_load ''ResendConfiguration'' ResendConfiguration_defaults stale_world
     = (old_resend, stale_world)
   \<and> SingletonModel_load ''ResendConfiguration'' ResendConfiguration_defaults empty_world
     = (ResendConfiguration_defaults\<lparr>pk := Some 1, created_at := Some 0, updated_at := Some 0\<rparr>,
        \<lparr>table = [1 \<mapsto> ResendConfiguration_defaults
                          \<lparr>pk := Some 1, created_at := Some 0, updated_at := Some 0\<rparr>],
         cache = [''ResendConfiguration_singleton'' \<mapsto>
                    (ResendConfiguration_defaults
                       \<lparr>pk := Some 1, created_at := Some 0, updated_at := Some 0\<rparr>, 300)],
         now = 0\<rparr>)
   \<and> fst (SingletonModel_load ''ResendConfiguration'' ResendConfiguration_defaults
            (snd (SingletonModel_load ''ResendConfiguration'' ResendConfiguration_defaults empty_world)
               \<lparr>now := 299, table := [1 \<mapsto> old_resend]\<rparr>))
     = ResendConfiguration_defaults\<lparr>pk := Some 1, created_at := Some 0, updated_at := Some 0\<rparr>
   \<and> fst (SingletonModel_load ''ResendConfiguration'' ResendConfiguration_defaults
            (snd (SingletonModel_load ''ResendConfiguration'' ResendConfiguration_defaults empty_world)
               \<lparr>now := 300\<rparr>))
     = ResendConfiguration_defaults\<lparr>pk := Some 1, created_at := Some 0, updated_at := Some 0\<rparr>
   \<and> fst (SingletonModel_load ''ResendConfiguration'' ResendConfiguration_defaults
            (snd (SingletonModel_load ''ResendConfiguration'' ResendConfiguration_defaults empty_world)
               \<lparr>now := 300, table := [1 \<mapsto> old_resend]\<rparr>))
     = old_resend"
proof -
  have hit: "cache stale_world (cache_key ''ResendConfiguration'') = Some (old_resend, 300)
             \<and> now stale_world < 300"
    by (simp add: stale_world_def cache_key_def)
  have miss: "cache_get (cache (empty_world :: ResendConfiguration world))
                (now (empty_world :: ResendConfiguration world))
                (cache_key ''ResendConfiguration'') = None"
    by (simp add: empty_world_def cache_get_def)
  let ?created = "ResendConfiguration_defaults
                    \<lparr>pk := Some 1, created_at := Some 0, updated_at := Some 0\<rparr>"
  have c1: "SingletonModel_load ''ResendConfiguration'' ResendConfiguration_defaults stale_world
              = (old_resend, stale_world)"
    using load_cache_ttl[where w = stale_world and cls = "''ResendConfiguration''"
            and cached = old_resend and expiry = 300 and dflt = ResendConfiguration_defaults
            and t = 0 and tbl = Map.empty] hit
    by blast
  have at299: "let inst = ?created;
                   w1 = \<lparr>table = [1 \<mapsto> inst],
                         cache = [''ResendConfiguration_singleton'' \<mapsto> (inst, 300)], now = 0\<rparr>
               in SingletonModel_load ''ResendConfiguration'' ResendConfiguration_defaults empty_world
                    = (inst, w1)
                \<and> SingletonModel_load ''ResendConfiguration'' ResendConfiguration_defaults
                      (w1\<lparr>now := 299, table := [1 \<mapsto> old_resend]\<rparr>)
                    = (inst, w1\<lparr>now := 299, table := [1 \<mapsto> old_resend]\<rparr>)"
    using load_cache_ttl[where w = empty_world and cls = "''ResendConfiguration''"
            and dflt = ResendConfiguration_defaults and t = 299 and tbl = "[1 \<mapsto> old_resend]"
            and cached = old_resend and expiry = 0] miss
    by (simp add: Let_def empty_world_def cache_key_def)
  have at300: "let inst = ?created;
                   w1 = \<lparr>table = [1 \<mapsto> inst],
                         cache = [''ResendConfiguration_singleton'' \<mapsto> (inst, 300)], now = 0\<rparr>
               in fst (SingletonModel_load ''ResendConfiguration'' ResendConfiguration_defaults
                        (w1\<lparr>now := 300\<rparr>)) = inst
                \<and> fst (SingletonModel_load ''ResendConfiguration'' ResendConfiguration_defaults
                        (w1\<lparr>now := 300, table := [1 \<mapsto> old_resend]\<rparr>)) = old_resend"
    using load_cache_ttl[where w = empty_world and cls = "''ResendConfiguration''"
            and dflt = ResendConfiguration_defaults and t = 300 and tbl = "[1 \<mapsto> old_resend]"
            and cached = old_resend and expiry = 0] miss
    by (simp add: Let_def empty_world_def cache_key_def)
  from c1 at299 at300 show ?thesis
    by (simp add: Let_def)
qed

section \<open>The configuration accessors\<close>

text \<open>
  C3. For each of the four accessors and every state: the accessor returns the
  instance that \<^verbatim>\<open>load\<close> returns when that instance is active and each field the
  accessor requires is not empty (payments: \<^verbatim>\<open>secret_key\<close>; e-mail: \<^verbatim>\<open>api_key\<close>;
  editor: \<^verbatim>\<open>api_key\<close>; media: \<^verbatim>\<open>cloud_name\<close>, \<^verbatim>\<open>api_key\<close> and \<^verbatim>\<open>api_secret\<close>),
  and \<^verbatim>\<open>None\<close> in every other case. The accessors have no failing branch.
\<close>

theorem gateway_gating:
  "fst (get_stripe_config ws) =
     (let config = fst (StripeConfiguration_load ws)
      in if StripeConfiguration.is_active config \<and> secret_key config \<noteq> [] then Some config else None)
   \<and> fst (get_resend_config wr) =
     (let config = fst (ResendConfiguration_load wr)
      in if ResendConfiguration.is_active config \<and> ResendConfiguration.api_key config \<noteq> []
         then Some config else None)
   \<and> fst (get_tinymce_config wt) =
     (let config = fst (TinyMCEConfiguration_load wt)
      in if TinyMCEConfiguration.is_active config \<and> TinyMCEConfiguration.api_key config \<noteq> []
         then Some config else None)
   \<and> fst (get_cloudinary_config wc) =
     (let config = fst (CloudinaryConfiguration_load wc)
      in if CloudinaryConfiguration.is_active config \<and> cloud_name config \<noteq> []
            \<and> CloudinaryConfiguration.api_key config \<noteq> [] \<and> api_secret config \<noteq> []
         then Some config else None)"
  by (simp add: get_stripe_config_def get_resend_config_def get_tinymce_config_def
      get_cloudinary_config_def Let_def split: prod.splits)

lemma load_resend_table:
  "fst (ResendConfiguration_load \<lparr>table = [1 \<mapsto> c], cache = Map.empty, now = t\<rparr>) = c"
  by (simp add: ResendConfiguration_load_def SingletonModel_load_def cache_get_def
      get_or_create_def)

theorem gateway_gating_witness:
  "fst (get_resend_config \<lparr>table = [1 \<mapsto> new_resend\<lparr>pk := Some 1\<rparr>], cache = Map.empty, now = 0\<rparr>)
     = Some (new_resend\<lparr>pk := Some 1\<rparr>)
   \<and> fst (get_resend_config
        \<lparr>table = [1 \<mapsto> new_resend\<lparr>pk := Some 1, ResendConfiguration.is_active := False\<rparr>],
         cache = Map.empty, now = 0\<rparr>) = None
   \<and> fst (get_resend_config
        \<lparr>table = [1 \<mapsto> new_resend\<lparr>pk := Some 1, ResendConfiguration.api_key := []\<rparr>],
         cache = Map.empty, now = 0\<rparr>) = None"
  using gateway_gating[where wr = "\<lparr>table = [1 \<mapsto> new_resend\<lparr>pk := Some 1\<rparr>], cache = Map.empty, now = 0\<rparr>"]
        gateway_gating[where wr = "\<lparr>table = [1 \<mapsto> new_resend\<lparr>pk := Some 1, ResendConfiguration.is_active := False\<rparr>], cache = Map.empty, now = 0\<rparr>"]
        gateway_gating[where wr = "\<lparr>table = [1 \<mapsto> new_resend\<lparr>pk := Some 1, ResendConfiguration.api_key := []\<rparr>], cache = Map.empty, now = 0\<rparr>"]
  by (simp add: load_resend_table Let_def new_resend_def ResendConfiguration_defaults_def)

section \<open>The email client\<close>

text \<open>
  C9. For every configuration whose \<^verbatim>\<open>api_key\<close> is empty, every environment and
  every recipient, \<^verbatim>\<open>send_test_email\<close> returns the pair of \<^verbatim>\<open>False\<close> and
  "API key is not configured.", and the list of HTTP calls made is as it was.
\<close>

theorem send_test_email_no_api_key:
  assumes "ResendConfiguration.api_key config = []"
  shows "send_test_email net config to_email sent = (Inr (False, ''API key is not configured.''), sent)"
  using assms by (simp add: send_test_email_def)

theorem send_test_email_no_api_key_witness:
  "send_test_email (\<lambda>req. Inr \<lparr>status_code = 200, resp_text = [], parsed = Inl []\<rparr>)
     ResendConfiguration_defaults ''admin@example.com'' []
   = (Inr (False, ''API key is not configured.''), [])"
  using send_test_email_no_api_key[of ResendConfiguration_defaults
          "\<lambda>req. Inr \<lparr>status_code = 200, resp_text = [], parsed = Inl []\<rparr>" "''admin@example.com''" "[]"]
  by (simp add: ResendConfiguration_defaults_def)

section \<open>The pre-save hook\<close>

lemmas eval_defs =
  upload_profile_picture_to_cloudinary_def upload_to_cloudinary_def delete_from_cloudinary_def build_upload_params_def
  get_cloudinary_config_def CloudinaryConfiguration_load_def SingletonModel_load_def
  cache_get_def cache_set_def cache_key_def get_or_create_def configure_def
  extract_public_id_def str_rsplit1_first_def dict_get_def store_url_def
  pk_truthy_def file_truthy_def hook_params_def CloudinaryConfiguration_defaults_def

lemmas example_defs =
  example_cloudinary_def example_api_def failing_api_def example_app_def example_media_def

lemma hook_params_eq:
  "build_upload_params config (Some ''users/profile_pictures'') None 30 = hook_params config"
  by (simp add: build_upload_params_def hook_params_def)

lemma upload_unconfigured:
  assumes "get_cloudinary_config (cloudinary_world s) = (None, w1)"
  shows "upload_to_cloudinary api f folder_arg tr tm s = (None, s\<lparr>cloudinary_world := w1\<rparr>)"
  using assms by (simp add: upload_to_cloudinary_def)

lemma upload_configured:
  assumes "get_cloudinary_config (cloudinary_world s) = (Some config, w1)"
  shows "upload_to_cloudinary api f (Some ''users/profile_pictures'') None 30 s =
     ((case uploader_upload api f (hook_params config) of
         Inl e \<Rightarrow> None
       | Inr result \<Rightarrow> dict_get result ''secure_url''),
      s\<lparr>cloudinary_world := w1,
        calls := calls s @
          [Configure (cloud_name config) (CloudinaryConfiguration.api_key config) (api_secret config) True,
           Upload f (hook_params config)]\<rparr>)"
  using assms
  by (simp add: upload_to_cloudinary_def Let_def configure_def hook_params_eq split: sum.splits)

lemma upload_calls:
  "\<exists>us. calls (snd (upload_to_cloudinary api f folder_arg tr tm s)) = calls s @ us
        \<and> (\<forall>c\<in>set us. \<forall>i. c \<noteq> Destroy i)"
proof -
  obtain config_opt w1 where cfg: "get_cloudinary_config (cloudinary_world s) = (config_opt, w1)"
    by (cases "get_cloudinary_config (cloudinary_world s)")
  show ?thesis
  proof (cases config_opt)
    case None
    with cfg have "calls (snd (upload_to_cloudinary api f folder_arg tr tm s)) = calls s @ []"
      by (simp add: upload_to_cloudinary_def)
    then show ?thesis by (intro exI[of _ "[]"]) simp
  next
    case (Some config)
    with cfg have
      "calls (snd (upload_to_cloudinary api f folder_arg tr tm s))
         = calls s @ [Configure (cloud_name config) (CloudinaryConfiguration.api_key config)
                        (api_secret config) True,
                      Upload f (build_upload_params config folder_arg tr tm)]"
      by (simp add: upload_to_cloudinary_def Let_def configure_def split: sum.splits)
    then show ?thesis
      by (intro exI[of _ "[Configure (cloud_name config) (CloudinaryConfiguration.api_key config)
                        (api_secret config) True,
                      Upload f (build_upload_params config folder_arg tr tm)]"]) simp
  qed
qed

lemma delete_calls:
  "\<exists>ds. calls (snd (delete_from_cloudinary api url s)) = calls s @ ds
        \<and> (\<forall>c\<in>set ds. \<forall>f p. c \<noteq> Upload f p)"
proof -
  obtain config_opt w1 where cfg: "get_cloudinary_config (cloudinary_world s) = (config_opt, w1)"
    by (cases "get_cloudinary_config (cloudinary_world s)")
  show ?thesis
  proof (cases config_opt)
    case None
    with cfg have "calls (snd (delete_from_cloudinary api url s)) = calls s @ []"
      by (simp add: delete_from_cloudinary_def)
    then show ?thesis by (intro exI[of _ "[]"]) simp
  next
    case (Some config)
    let ?c = "Configure (cloud_name config) (CloudinaryConfiguration.api_key config)
                (api_secret config) True"
    from Some cfg have
      "calls (snd (delete_from_cloudinary api url s)) = calls s @ [?c]
       \<or> (\<exists>public_id. calls (snd (delete_from_cloudinary api url s))
                          = calls s @ [?c, Destroy public_id])"
      by (simp add: delete_from_cloudinary_def Let_def configure_def split: sum.splits)
    then show ?thesis
    proof
      assume "calls (snd (delete_from_cloudinary api url s)) = calls s @ [?c]"
      then show ?thesis by (intro exI[of _ "[?c]"]) simp
    next
      assume "\<exists>public_id. calls (snd (delete_from_cloudinary api url s))
                          = calls s @ [?c, Destroy public_id]"
      then obtain public_id where
        "calls (snd (delete_from_cloudinary api url s)) = calls s @ [?c, Destroy public_id]" ..
      then show ?thesis by (intro exI[of _ "[?c, Destroy public_id]"]) simp
    qed
  qed
qed

lemma store_url_frame:
  "pk (store_url url instance) = pk instance \<and> User.more (store_url url instance) = User.more instance"
  by (simp add: store_url_def split: option.splits)

text \<open>
  C4. For every new entity (no key, or the key 0) with a file attached, every media
  library and every state: the hook makes the one call of \<^verbatim>\<open>upload_to_cloudinary\<close>,
  with the file, the folder \<^verbatim>\<open>users/profile_pictures\<close>, no transformation and the
  timeout 30, and leaves the state that call left. If the call returns a URL that is
  not empty, the instance comes back with \<^verbatim>\<open>profile_picture_url\<close> set to it and the file
  field cleared; if it returns none, the instance comes back as submitted, file field
  and URL included. The key and every other field are as submitted in both cases, and
  the hook has no failing branch, so the save goes on. When the media configuration is
  complete, the URL is the \<^verbatim>\<open>secure_url\<close> of the library's answer (none when the library
  raised), and the library was configured and asked for the one upload, under
  \<^verbatim>\<open>users/profile_pictures\<close>; when it is not, no URL is returned and the library is not
  called.
\<close>

theorem hook_new_entity:
  assumes new: "\<not> pk_truthy (pk instance)"
      and has_file: "file_truthy (profile_picture instance)"
  shows "(let (url, s1) = upload_to_cloudinary api (profile_picture instance)
                            (Some ''users/profile_pictures'') None 30 s;
              (instance1, s2) = upload_profile_picture_to_cloudinary api instance s
          in s2 = s1
           \<and> instance1 =
               (case url of
                  None \<Rightarrow> instance
                | Some u \<Rightarrow>
                    if u \<noteq> []
                    then instance\<lparr>profile_picture_url := u, profile_picture := FieldFile None\<rparr>
                    else instance)
           \<and> pk instance1 = pk instance \<and> User.more instance1 = User.more instance
           \<and> (case get_cloudinary_config (cloudinary_world s) of
                (None, w1) \<Rightarrow> url = None \<and> calls s1 = calls s
              | (Some config, w1) \<Rightarrow>
                  url = (case uploader_upload api (profile_picture instance) (hook_params config) of
                           Inl e \<Rightarrow> None
                         | Inr result \<Rightarrow> dict_get result ''secure_url'')
                  \<and> calls s1 = calls s @
                       [Configure (cloud_name config) (CloudinaryConfiguration.api_key config)
                          (api_secret config) True,
                        Upload (profile_picture instance) (hook_params config)]))"
proof -
  obtain url s1 where up: "upload_to_cloudinary api (profile_picture instance)
                            (Some ''users/profile_pictures'') None 30 s = (url, s1)"
    by (cases "upload_to_cloudinary api (profile_picture instance)
                 (Some ''users/profile_pictures'') None 30 s")
  have hook: "upload_profile_picture_to_cloudinary api instance s = (store_url url instance, s1)"
    using new has_file up by (simp add: upload_profile_picture_to_cloudinary_def)
  obtain config_opt w1 where cfg: "get_cloudinary_config (cloudinary_world s) = (config_opt, w1)"
    by (cases "get_cloudinary_config (cloudinary_world s)")
  have env: "case get_cloudinary_config (cloudinary_world s) of
                (None, w1) \<Rightarrow> url = None \<and> calls s1 = calls s
              | (Some config, w1) \<Rightarrow>
                  url = (case uploader_upload api (profile_picture instance) (hook_params config) of
                           Inl e \<Rightarrow> None
                         | Inr result \<Rightarrow> dict_get result ''secure_url'')
                  \<and> calls s1 = calls s @
                       [Configure (cloud_name config) (CloudinaryConfiguration.api_key config)
                          (api_secret config) True,
                        Upload (profile_picture instance) (hook_params config)]"
  proof (cases config_opt)
    case None
    with cfg have c: "get_cloudinary_config (cloudinary_world s) = (None, w1)" by simp
    from upload_unconfigured[OF c] up have "url = None" and "s1 = s\<lparr>cloudinary_world := w1\<rparr>"
      by simp_all
    then show ?thesis by (simp add: c)
  next
    case (Some config)
    with cfg have c: "get_cloudinary_config (cloudinary_world s) = (Some config, w1)" by simp
    from upload_configured[OF c, of api "profile_picture instance"] up
    have "url = (case uploader_upload api (profile_picture instance) (hook_params config) of
                   Inl e \<Rightarrow> None
                 | Inr result \<Rightarrow> dict_get result ''secure_url'')"
      and "s1 = s\<lparr>cloudinary_world := w1,
                  calls := calls s @
                    [Configure (cloud_name config) (CloudinaryConfiguration.api_key config)
                       (api_secret config) True,
                     Upload (profile_picture instance) (hook_params config)]\<rparr>"
      by simp_all
    then show ?thesis by (simp add: c)
  qed
  show ?thesis
    using env by (simp add: up hook store_url_frame) (simp add: store_url_def)
qed

theorem hook_new_entity_witness:
  "fst (upload_profile_picture_to_cloudinary example_api new_user example_app)
     = new_user\<lparr>profile_picture_url := ''https://host/upload/v1/folder/abc.jpg'',
                profile_picture := FieldFile None\<rparr>
   \<and> calls (snd (upload_profile_picture_to_cloudinary example_api new_user example_app))
     = [Configure ''demo'' ''key'' ''secret'' True,
        Upload (FieldFile (Some ''me.jpg'')) (hook_params example_cloudinary)]
   \<and> upload_profile_picture_to_cloudinary failing_api new_user example_app
     = (new_user, snd (upload_to_cloudinary failing_api (FieldFile (Some ''me.jpg''))
                         (Some ''users/profile_pictures'') None 30 example_app))"
proof -
  have new: "\<not> pk_truthy (pk new_user)"
    by (simp add: new_user_def pk_truthy_def)
  have has_file: "file_truthy (profile_picture new_user)"
    by (simp add: new_user_def file_truthy_def)
  show ?thesis
    using hook_new_entity[OF new has_file, of example_api example_app]
          hook_new_entity[OF new has_file, of failing_api example_app]
    by (simp add: eval_defs example_defs new_user_def)
qed

text \<open>
  C5. For every existing entity (a key other than 0, with a stored row) whose submitted
  file is not empty and differs from the stored one: when the stored row has a URL, the
  hook first runs \<^verbatim>\<open>delete_from_cloudinary\<close> on that URL, whatever it answers, and then,
  in the state the deletion left, \<^verbatim>\<open>upload_to_cloudinary\<close> with the submitted file and
  the folder \<^verbatim>\<open>users/profile_pictures\<close>; with no stored URL it runs the upload alone. A
  returned URL that is not empty replaces \<^verbatim>\<open>profile_picture_url\<close> and clears the file
  field; otherwise the instance comes back as submitted. Key and other fields are as
  submitted. In the list of library calls, those of the deletion (no upload among them)
  stand before those of the upload (no deletion among them).
\<close>

theorem hook_changed_file:
  assumes key: "pk instance = Some k" "k \<noteq> 0"
      and old: "users s k = Some old_instance"
      and has_file: "file_truthy (profile_picture instance)"
      and changed: "profile_picture instance \<noteq> profile_picture old_instance"
  shows "(let s1 = (if profile_picture_url old_instance \<noteq> []
                    then snd (delete_from_cloudinary api (profile_picture_url old_instance) s)
                    else s);
              (url, s2) = upload_to_cloudinary api (profile_picture instance)
                            (Some ''users/profile_pictures'') None 30 s1;
              (instance1, s3) = upload_profile_picture_to_cloudinary api instance s
          in s3 = s2
           \<and> instance1 =
               (case url of
                  None \<Rightarrow> instance
                | Some u \<Rightarrow>
                    if u \<noteq> []
                    then instance\<lparr>profile_picture_url := u, profile_picture := FieldFile None\<rparr>
                    else instance)
           \<and> pk instance1 = pk instance \<and> User.more instance1 = User.more instance
           \<and> (\<exists>ds us. calls s1 = calls s @ ds \<and> calls s3 = calls s @ ds @ us
                 \<and> (\<forall>c\<in>set ds. \<forall>f p. c \<noteq> Upload f p)
                 \<and> (\<forall>c\<in>set us. \<forall>i. c \<noteq> Destroy i)))"
proof -
  define s1 where "s1 = (if profile_picture_url old_instance \<noteq> []
                    then snd (delete_from_cloudinary api (profile_picture_url old_instance) s)
                    else s)"
  obtain url s2 where up: "upload_to_cloudinary api (profile_picture instance)
                            (Some ''users/profile_pictures'') None 30 s1 = (url, s2)"
    by (cases "upload_to_cloudinary api (profile_picture instance)
                 (Some ''users/profile_pictures'') None 30 s1")
  have hook: "upload_profile_picture_to_cloudinary api instance s = (store_url url instance, s2)"
    using key old has_file changed up
    by (simp add: upload_profile_picture_to_cloudinary_def pk_truthy_def Let_def s1_def)
  obtain ds where ds: "calls s1 = calls s @ ds" "\<forall>c\<in>set ds. \<forall>f p. c \<noteq> Upload f p"
    using delete_calls[of api "profile_picture_url old_instance" s]
    by (cases "profile_picture_url old_instance \<noteq> []") (auto simp: s1_def)
  obtain us where us: "calls s2 = calls s1 @ us" "\<forall>c\<in>set us. \<forall>i. c \<noteq> Destroy i"
    using upload_calls[of api "profile_picture instance" "Some ''users/profile_pictures''" None 30 s1] up
    by auto
  have log: "\<exists>ds us. calls s1 = calls s @ ds \<and> calls s2 = calls s @ ds @ us
                 \<and> (\<forall>c\<in>set ds. \<forall>f p. c \<noteq> Upload f p)
                 \<and> (\<forall>c\<in>set us. \<forall>i. c \<noteq> Destroy i)"
    using ds us by auto
  have inst: "store_url url instance =
               (case url of
                  None \<Rightarrow> instance
                | Some u \<Rightarrow>
                    if u \<noteq> []
                    then instance\<lparr>profile_picture_url := u, profile_picture := FieldFile None\<rparr>
                    else instance)"
    by (simp add: store_url_def)
  show ?thesis
    unfolding Let_def s1_def[symmetric] up hook
    using log inst store_url_frame[of url "instance"] by simp
qed

theorem hook_changed_file_witness:
  "fst (upload_profile_picture_to_cloudinary example_api
          (stored_user\<lparr>profile_picture := FieldFile (Some ''new.jpg'')\<rparr>) example_app)
     = stored_user\<lparr>profile_picture_url := ''https://host/upload/v1/folder/abc.jpg'',
                   profile_picture := FieldFile None\<rparr>
   \<and> calls (snd (upload_profile_picture_to_cloudinary example_api
                   (stored_user\<lparr>profile_picture := FieldFile (Some ''new.jpg'')\<rparr>) example_app))
     = [Configure ''demo'' ''key'' ''secret'' True, Destroy ''folder/abc'',
        Configure ''demo'' ''key'' ''secret'' True,
        Upload (FieldFile (Some ''new.jpg'')) (hook_params example_cloudinary)]
   \<and> fst (upload_profile_picture_to_cloudinary failing_api
            (stored_user\<lparr>profile_picture := FieldFile (Some ''new.jpg'')\<rparr>) example_app)
     = stored_user\<lparr>profile_picture := FieldFile (Some ''new.jpg'')\<rparr>"
proof -
  let ?edited = "stored_user\<lparr>profile_picture := FieldFile (Some ''new.jpg'')\<rparr>"
  have key: "pk ?edited = Some 5" "(5::int) \<noteq> 0"
    by (simp_all add: stored_user_def)
  have old: "users example_app 5 = Some stored_user"
    by (simp add: example_app_def)
  have has_file: "file_truthy (profile_picture ?edited)"
    by (simp add: file_truthy_def)
  have changed: "profile_picture ?edited \<noteq> profile_picture stored_user"
    by (simp add: stored_user_def)
  show ?thesis
    using hook_changed_file[OF key old has_file changed, of example_api]
          hook_changed_file[OF key old has_file changed, of failing_api]
    by (simp add: eval_defs example_defs stored_user_def)
qed

text \<open>
  C10. For every existing entity (a key other than 0, with a stored row) whose
  submitted file is empty, or the same as the stored one: the hook returns the instance
  and the state as they were; no library call is made, so no remote deletion, and
  \<^verbatim>\<open>profile_picture_url\<close> keeps its value: on an existing entity the hook does
  nothing unless the submitted file is not empty and differs from the stored one.
\<close>

theorem hook_no_new_file:
  assumes key: "pk instance = Some k" "k \<noteq> 0"
      and old: "users s k = Some old_instance"
      and same: "\<not> file_truthy (profile_picture instance)
                 \<or> profile_picture instance = profile_picture old_instance"
  shows "upload_profile_picture_to_cloudinary api instance s = (instance, s)
       \<and> calls (snd (upload_profile_picture_to_cloudinary api instance s)) = calls s
       \<and> profile_picture_url (fst (upload_profile_picture_to_cloudinary api instance s))
           = profile_picture_url instance"
proof -
  have "upload_profile_picture_to_cloudinary api instance s = (instance, s)"
    using key old same
    by (auto simp: upload_profile_picture_to_cloudinary_def pk_truthy_def)
  then show ?thesis by simp
qed

theorem hook_no_new_file_witness:
  "upload_profile_picture_to_cloudinary example_api
     (stored_user\<lparr>profile_picture := FieldFile None\<rparr>) example_app
     = (stored_user\<lparr>profile_picture := FieldFile None\<rparr>, example_app)
   \<and> calls (snd (upload_profile_picture_to_cloudinary example_api
                   (stored_user\<lparr>profile_picture := FieldFile None\<rparr>) example_app)) = []
   \<and> profile_picture_url (fst (upload_profile_picture_to_cloudinary example_api
                   (stored_user\<lparr>profile_picture := FieldFile None\<rparr>) example_app))
     = ''https://res.cloudinary.com/demo/image/upload/v1/folder/abc.jpg''"
proof -
  let ?cleared = "stored_user\<lparr>profile_picture := FieldFile None\<rparr>"
  have key: "pk ?cleared = Some 5" "(5::int) \<noteq> 0"
    by (simp_all add: stored_user_def)
  have old: "users example_app 5 = Some stored_user"
    by (simp add: example_app_def)
  have same: "\<not> file_truthy (profile_picture ?cleared)
              \<or> profile_picture ?cleared = profile_picture stored_user"
    by (simp add: file_truthy_def)
  have c: "calls example_app = []"
    by (simp add: example_app_def)
  have u: "profile_picture_url ?cleared
             = ''https://res.cloudinary.com/demo/image/upload/v1/folder/abc.jpg''"
    by (simp add: stored_user_def)
  show ?thesis
    using hook_no_new_file[OF key old same, of example_api] c u by simp
qed

section \<open>The remote delete\<close>

text \<open>
  A URL that does not name the media host, or that has no \<^verbatim>\<open>upload\<close> piece (the
  \<^verbatim>\<open>ValueError\<close> of the lookup is caught), is answered \<^verbatim>\<open>False\<close>, and no deletion is
  asked of the library.
\<close>

lemma delete_not_applicable:
  assumes "\<not> str_contains ''cloudinary.com'' url \<or> ''upload'' \<notin> set (str_split url (CHR ''/''))"
  shows "fst (delete_from_cloudinary api url s) = False
       \<and> (\<exists>ds. calls (snd (delete_from_cloudinary api url s)) = calls s @ ds
                \<and> (\<forall>c\<in>set ds. \<forall>public_id. c \<noteq> Destroy public_id))"
proof -
  have idx: "list_index parts x = None" if "x \<notin> set parts" for parts :: "string list" and x
    using that by (induction parts) auto
  obtain config_opt w1 where cfg: "get_cloudinary_config (cloudinary_world s) = (config_opt, w1)"
    by (cases "get_cloudinary_config (cloudinary_world s)")
  show ?thesis
  proof (cases config_opt)
    case None
    with cfg have "delete_from_cloudinary api url s = (False, s\<lparr>cloudinary_world := w1\<rparr>)"
      by (simp add: delete_from_cloudinary_def)
    then show ?thesis by (intro conjI exI[of _ "[]"]) simp_all
  next
    case (Some config)
    let ?c = "Configure (cloud_name config) (CloudinaryConfiguration.api_key config)
                (api_secret config) True"
    have skipped: "delete_from_cloudinary api url s
                     = (False, s\<lparr>cloudinary_world := w1, calls := calls s @ [?c]\<rparr>)"
      using assms
    proof
      assume "\<not> str_contains ''cloudinary.com'' url"
      with Some cfg show ?thesis
        by (simp add: delete_from_cloudinary_def Let_def configure_def)
    next
      assume "''upload'' \<notin> set (str_split url (CHR ''/''))"
      then have "\<exists>e. extract_public_id (str_split url (CHR ''/'')) = Inl e"
        by (simp add: extract_public_id_def idx)
      with Some cfg show ?thesis
        by (auto simp: delete_from_cloudinary_def Let_def configure_def)
    qed
    then show ?thesis by (intro conjI exI[of _ "[?c]"]) simp_all
  qed
qed

text \<open>
  On a URL with a version piece the identifier is the path below it, without the
  extension.
\<close>

lemma delete_versioned_url:
  "delete_from_cloudinary example_api
     ''https://res.cloudinary.com/demo/image/upload/v1312461204/folder/abc.jpg'' example_media
   = (True,
      \<lparr>cloudinary_world =
         \<lparr>table = [1 \<mapsto> example_cloudinary],
          cache = [''CloudinaryConfiguration_singleton'' \<mapsto> (example_cloudinary, 300)],
          now = 0\<rparr>,
       calls = [Configure ''demo'' ''key'' ''secret'' True, Destroy ''folder/abc'']\<rparr>)"
  by (simp add: eval_defs example_defs)

text \<open>
  C6. The URL \<^verbatim>\<open>https://res.cloudinary.com/demo/image/upload/vacation/beach.jpg\<close>
  has no version piece, and its first folder begins with the letter v. With a complete
  media configuration, \<^verbatim>\<open>delete_from_cloudinary\<close> configures the library and asks it to
  destroy \<^verbatim>\<open>beach\<close>; the identifier that the pieces after \<^verbatim>\<open>upload\<close> give, once a
  leading version piece (there is none) and the extension are stripped, is
  \<^verbatim>\<open>vacation/beach\<close>. The code takes every first piece that starts with v for a
  version, under the comment "Remove version if present".
\<close>

theorem delete_strips_leading_v_folder:
  "calls (snd (delete_from_cloudinary example_api
                 ''https://res.cloudinary.com/demo/image/upload/vacation/beach.jpg'' example_media))
     = [Configure ''demo'' ''key'' ''secret'' True, Destroy ''beach'']
   \<and> spec_public_id ''https://res.cloudinary.com/demo/image/upload/vacation/beach.jpg''
     = Some ''vacation/beach''"
  by (simp add: delete_from_cloudinary_def get_cloudinary_config_def CloudinaryConfiguration_load_def
      SingletonModel_load_def cache_get_def cache_set_def cache_key_def get_or_create_def
      configure_def extract_public_id_def str_rsplit1_first_def dict_get_def
      spec_public_id_def is_version_segment_def
      CloudinaryConfiguration_defaults_def example_cloudinary_def example_api_def example_media_def)

section \<open>The outcomes of the email client\<close>

lemma active_config:
  "get_resend_config active_world
     = (Some (new_resend\<lparr>pk := Some 1\<rparr>),
        active_world\<lparr>cache := [''ResendConfiguration_singleton'' \<mapsto> (new_resend\<lparr>pk := Some 1\<rparr>, 300)]\<rparr>)"
  by (simp add: get_resend_config_def ResendConfiguration_load_def SingletonModel_load_def
      cache_get_def cache_set_def cache_key_def get_or_create_def active_world_def new_resend_def
      ResendConfiguration_defaults_def)

text \<open>
  C7, as stated, fails: a response with status 201 is a 2xx response, a success in the
  classes the claim names, and \<^verbatim>\<open>send_email\<close> reports it as a failure, since only the
  status 200 counts as success.
\<close>

theorem created_is_reported_as_failure:
  "spec_outcome_class (Inr created_response) = Success
   \<and> fst (send_email (\<lambda>req. Inr created_response) ''user@example.com'' ''Welcome!''
            ''<h1>Welcome</h1>'' active_world [])
     = Inr (False, ''Failed to send email: created'')"
  by (simp add: spec_outcome_class_def send_email_def active_config requests_post_def
      error_reply_def response_json_def error_data_get_def created_response_def)

text \<open>
  A response other than 200 whose body is JSON but not an object makes
  \<^verbatim>\<open>error_data.get\<close> raise \<^verbatim>\<open>AttributeError\<close>, which is no \<^verbatim>\<open>RequestException\<close>:
  it leaves \<^verbatim>\<open>send_email\<close>. A body that is not JSON at all makes \<^verbatim>\<open>response.json()\<close>
  raise, and that exception is caught where it is a \<^verbatim>\<open>RequestException\<close>.
\<close>

lemma undecodable_body_reported:
  "fst (send_email (\<lambda>req. Inr gateway_page) ''user@example.com'' ''Welcome!''
            ''<h1>Welcome</h1>'' active_world [])
     = Inr (False, ''Failed to send email: Expecting value: line 1 column 1 (char 0)'')"
  by (simp add: send_email_def active_config requests_post_def
      error_reply_def response_json_def gateway_page_def is_RequestException_def)

lemma non_object_body_raises:
  "fst (send_email (\<lambda>req. Inr list_response) ''user@example.com'' ''Welcome!''
            ''<h1>Welcome</h1>'' active_world [])
     = Inl (Exn AttributeError ''list object has no attribute get'')"
  by (simp add: send_email_def active_config requests_post_def
      error_reply_def response_json_def error_data_get_def list_response_def is_RequestException_def)

text \<open>
  C7, as amended. With the configuration the accessor returns (for \<^verbatim>\<open>send_email\<close>) or
  one whose \<^verbatim>\<open>api_key\<close> and \<^verbatim>\<open>from_email\<close> are set (for \<^verbatim>\<open>send_test_email\<close>), each
  sender makes exactly one HTTP call, whatever comes back, and never a second one. A
  response with status 200 gives the pair of \<^verbatim>\<open>True\<close> and the success message. A
  response with any other status, 2xx or not, whose body is a JSON object gives
  \<^verbatim>\<open>False\<close> with "Failed to send email: " and the \<^verbatim>\<open>message\<close> member of the body
  (the text of the response when it has no such member). A raised
  \<^verbatim>\<open>RequestException\<close> gives \<^verbatim>\<open>False\<close> with "Failed to send email: " and
  the text of the exception; \<^verbatim>\<open>send_email\<close> reports a timeout that way
  too, \<^verbatim>\<open>send_test_email\<close> reports it as "Request timed out. Please try again.". In
  each of these cases the sender returns a pair and raises nothing. A response other
  than 200 whose body is not a JSON object is not covered.
\<close>

theorem email_outcomes:
  assumes cfg: "get_resend_config w = (Some config, w1)"
      and tcfg: "ResendConfiguration.api_key tconfig \<noteq> []" "from_email tconfig \<noteq> []"
  shows
   "(let req = resend_request config to_email subject html;
         r = send_email net to_email subject html w sent
     in snd r = (w1, sent @ [req])
      \<and> (net req = Inr response \<and> status_code response = 200
           \<longrightarrow> fst r = Inr (True, ''Email sent successfully.''))
      \<and> (net req = Inr response \<and> status_code response \<noteq> 200
            \<and> parsed response = Inr (JsonObject members)
           \<longrightarrow> fst r = Inr (False, ''Failed to send email: '' @
                          (case map_of members ''message'' of
                             Some m \<Rightarrow> m | None \<Rightarrow> resp_text response)))
      \<and> (net req = Inl e \<and> is_RequestException e
           \<longrightarrow> fst r = Inr (False, ''Failed to send email: '' @ exn_str e)))
  \<and> (let req = resend_request tconfig to_email ''Test Email - Turbo Configuration'' test_email_html;
         r = send_test_email net tconfig to_email sent
     in snd r = sent @ [req]
      \<and> (net req = Inr response \<and> status_code response = 200
           \<longrightarrow> fst r = Inr (True, ''Test email sent successfully to '' @ to_email))
      \<and> (net req = Inr response \<and> status_code response \<noteq> 200
            \<and> parsed response = Inr (JsonObject members)
           \<longrightarrow> fst r = Inr (False, ''Failed to send email: '' @
                          (case map_of members ''message'' of
                             Some m \<Rightarrow> m | None \<Rightarrow> resp_text response)))
      \<and> (net req = Inl e \<and> exn_cls e = Timeout
           \<longrightarrow> fst r = Inr (False, ''Request timed out. Please try again.''))
      \<and> (net req = Inl e \<and> is_RequestException e \<and> exn_cls e \<noteq> Timeout
           \<longrightarrow> fst r = Inr (False, ''Failed to send email: '' @ exn_str e)))"
proof -
  have reply_obj: "error_reply response =
      Inr (False, ''Failed to send email: '' @
             (case map_of members ''message'' of Some m \<Rightarrow> m | None \<Rightarrow> resp_text response))"
    if "parsed response = Inr (JsonObject members)"
    using that by (simp add: error_reply_def response_json_def error_data_get_def split: option.splits)
  have first: "let req = resend_request config to_email subject html;
         r = send_email net to_email subject html w sent
     in snd r = (w1, sent @ [req])
      \<and> (net req = Inr response \<and> status_code response = 200
           \<longrightarrow> fst r = Inr (True, ''Email sent successfully.''))
      \<and> (net req = Inr response \<and> status_code response \<noteq> 200
            \<and> parsed response = Inr (JsonObject members)
           \<longrightarrow> fst r = Inr (False, ''Failed to send email: '' @
                          (case map_of members ''message'' of
                             Some m \<Rightarrow> m | None \<Rightarrow> resp_text response)))
      \<and> (net req = Inl e \<and> is_RequestException e
           \<longrightarrow> fst r = Inr (False, ''Failed to send email: '' @ exn_str e))"
    unfolding Let_def
  proof (intro conjI impI)
    show "snd (send_email net to_email subject html w sent)
            = (w1, sent @ [resend_request config to_email subject html])"
      by (simp add: send_email_def cfg requests_post_def Let_def split: sum.splits)
  qed (auto simp: send_email_def cfg requests_post_def reply_obj)
  have second: "let req = resend_request tconfig to_email ''Test Email - Turbo Configuration'' test_email_html;
         r = send_test_email net tconfig to_email sent
     in snd r = sent @ [req]
      \<and> (net req = Inr response \<and> status_code response = 200
           \<longrightarrow> fst r = Inr (True, ''Test email sent successfully to '' @ to_email))
      \<and> (net req = Inr response \<and> status_code response \<noteq> 200
            \<and> parsed response = Inr (JsonObject members)
           \<longrightarrow> fst r = Inr (False, ''Failed to send email: '' @
                          (case map_of members ''message'' of
                             Some m \<Rightarrow> m | None \<Rightarrow> resp_text response)))
      \<and> (net req = Inl e \<and> exn_cls e = Timeout
           \<longrightarrow> fst r = Inr (False, ''Request timed out. Please try again.''))
      \<and> (net req = Inl e \<and> is_RequestException e \<and> exn_cls e \<noteq> Timeout
           \<longrightarrow> fst r = Inr (False, ''Failed to send email: '' @ exn_str e))"
    unfolding Let_def
  proof (intro conjI impI)
    show "snd (send_test_email net tconfig to_email sent)
            = sent @ [resend_request tconfig to_email ''Test Email - Turbo Configuration'' test_email_html]"
      using tcfg by (simp add: send_test_email_def requests_post_def Let_def split: sum.splits)
  qed (use tcfg in \<open>auto simp: send_test_email_def requests_post_def reply_obj\<close>)
  from first second show ?thesis by blast
qed

theorem email_outcomes_witness:
  "send_email (\<lambda>req. Inr ok_response) ''user@example.com'' ''Welcome!'' ''<h1>Welcome</h1>''
       active_world []
     = (Inr (True, ''Email sent successfully.''),
        active_world\<lparr>cache := [''ResendConfiguration_singleton'' \<mapsto> (new_resend\<lparr>pk := Some 1\<rparr>, 300)]\<rparr>,
        [resend_request (new_resend\<lparr>pk := Some 1\<rparr>) ''user@example.com'' ''Welcome!'' ''<h1>Welcome</h1>''])
   \<and> fst (send_email (\<lambda>req. Inr rejected_response) ''user@example.com'' ''Welcome!''
            ''<h1>Welcome</h1>'' active_world [])
     = Inr (False, ''Failed to send email: Invalid to field'')
   \<and> fst (send_email (\<lambda>req. Inl (Exn Timeout ''Read timed out.'')) ''user@example.com''
            ''Welcome!'' ''<h1>Welcome</h1>'' active_world [])
     = Inr (False, ''Failed to send email: Read timed out.'')
   \<and> fst (send_test_email (\<lambda>req. Inr ok_response) new_resend ''user@example.com'' [])
     = Inr (True, ''Test email sent successfully to user@example.com'')
   \<and> fst (send_test_email (\<lambda>req. Inr rejected_response) new_resend ''user@example.com'' [])
     = Inr (False, ''Failed to send email: Invalid to field'')
   \<and> fst (send_test_email (\<lambda>req. Inl (Exn Timeout ''Read timed out.'')) new_resend
            ''user@example.com'' [])
     = Inr (False, ''Request timed out. Please try again.'')
   \<and> fst (send_test_email (\<lambda>req. Inl (Exn ConnectionError ''Connection refused'')) new_resend
            ''user@example.com'' [])
     = Inr (False, ''Failed to send email: Connection refused'')"
proof -
  have tcfg: "ResendConfiguration.api_key new_resend \<noteq> []" "from_email new_resend \<noteq> []"
    by (simp_all add: new_resend_def)
  note outcomes = email_outcomes[OF active_config tcfg,
      where to_email = "''user@example.com''" and subject = "''Welcome!''"
        and html = "''<h1>Welcome</h1>''" and sent = "[]"]
  note ok = outcomes[where net = "\<lambda>req. Inr ok_response" and response = ok_response]
  note rejected = outcomes[where net = "\<lambda>req. Inr rejected_response"
      and response = rejected_response
      and members = "[(''statusCode'', ''422''), (''message'', ''Invalid to field'')]"]
  note timed_out = outcomes[where net = "\<lambda>req. Inl (Exn Timeout ''Read timed out.'')"
      and e = "Exn Timeout ''Read timed out.''"]
  note refused = outcomes[where net = "\<lambda>req. Inl (Exn ConnectionError ''Connection refused'')"
      and e = "Exn ConnectionError ''Connection refused''"]
  have c1: "send_email (\<lambda>req. Inr ok_response) ''user@example.com'' ''Welcome!'' ''<h1>Welcome</h1>''
       active_world []
     = (Inr (True, ''Email sent successfully.''),
        active_world\<lparr>cache := [''ResendConfiguration_singleton'' \<mapsto> (new_resend\<lparr>pk := Some 1\<rparr>, 300)]\<rparr>,
        [resend_request (new_resend\<lparr>pk := Some 1\<rparr>) ''user@example.com'' ''Welcome!'' ''<h1>Welcome</h1>''])"
    using ok by (simp add: Let_def ok_response_def prod_eq_iff)
  have c2: "fst (send_email (\<lambda>req. Inr rejected_response) ''user@example.com'' ''Welcome!''
            ''<h1>Welcome</h1>'' active_world [])
     = Inr (False, ''Failed to send email: Invalid to field'')"
    using rejected by (simp add: Let_def rejected_response_def)
  have c4: "fst (send_email (\<lambda>req. Inl (Exn Timeout ''Read timed out.'')) ''user@example.com''
            ''Welcome!'' ''<h1>Welcome</h1>'' active_world [])
     = Inr (False, ''Failed to send email: Read timed out.'')"
    using timed_out by (simp add: Let_def is_RequestException_def)
  have c5: "fst (send_test_email (\<lambda>req. Inr ok_response) new_resend ''user@example.com'' [])
     = Inr (True, ''Test email sent successfully to user@example.com'')"
    using ok by (simp add: Let_def ok_response_def)
  have c6: "fst (send_test_email (\<lambda>req. Inr rejected_response) new_resend ''user@example.com'' [])
     = Inr (False, ''Failed to send email: Invalid to field'')"
    using rejected by (simp add: Let_def rejected_response_def)
  have c8: "fst (send_test_email (\<lambda>req. Inl (Exn Timeout ''Read timed out.'')) new_resend
            ''user@example.com'' [])
     = Inr (False, ''Request timed out. Please try again.'')"
    using timed_out by (simp add: Let_def)
  have c9: "fst (send_test_email (\<lambda>req. Inl (Exn ConnectionError ''Connection refused'')) new_resend
            ''user@example.com'' [])
     = Inr (False, ''Failed to send email: Connection refused'')"
    using refused by (simp add: Let_def is_RequestException_def)
  from c1 c2 c4 c5 c6 c8 c9 show ?thesis by blast
qed

end
